theory Spec2Isabelle
  imports Complex_Main
begin

section \<open>JavaScript values\<close>

text \<open>
  A JavaScript number is a double. The model idealises the finite doubles as real numbers
  (no rounding, no overflow, no signed zero) and keeps the three special values apart,
  because the code under study branches on them (\<^verbatim>\<open>isNaN\<close>, comparisons with \<^verbatim>\<open>NaN\<close>).
\<close>

datatype jsnum = NaN | NegInf | PosInf | Fin real

text \<open>
  The scalar values that occur in the data: \<^verbatim>\<open>undefined\<close>, strings and numbers.
\<close>

datatype jsval = Undefined | Str string | Num jsnum

text \<open>
  An object used as a dictionary: a property that was never set reads \<^verbatim>\<open>undefined\<close>. The
  properties an object inherits from \<^verbatim>\<open>Object.prototype\<close> (\<^verbatim>\<open>constructor\<close>, \<^verbatim>\<open>__proto__\<close>
  and the like) are not modelled: such a name is a key like any other here.
\<close>

type_synonym jsobj = "string \<Rightarrow> jsval"

definition emptyObject :: jsobj where
  "emptyObject = (\<lambda>k. Undefined)"

subsection \<open>Arithmetic and comparison of numbers\<close>

fun num_neg :: "jsnum \<Rightarrow> jsnum" where
  "num_neg NaN = NaN"
| "num_neg NegInf = PosInf"
| "num_neg PosInf = NegInf"
| "num_neg (Fin x) = Fin (- x)"

fun num_add :: "jsnum \<Rightarrow> jsnum \<Rightarrow> jsnum" where
  "num_add NaN b = NaN"
| "num_add a NaN = NaN"
| "num_add PosInf NegInf = NaN"
| "num_add NegInf PosInf = NaN"
| "num_add PosInf b = PosInf"
| "num_add NegInf b = NegInf"
| "num_add (Fin x) PosInf = PosInf"
| "num_add (Fin x) NegInf = NegInf"
| "num_add (Fin x) (Fin y) = Fin (x + y)"

definition num_sub :: "jsnum \<Rightarrow> jsnum \<Rightarrow> jsnum" where
  "num_sub a b = num_add a (num_neg b)"

text \<open>The infinity with the sign of a non-zero real.\<close>

definition signedInf :: "real \<Rightarrow> jsnum" where
  "signedInf x = (if x < 0 then NegInf else PosInf)"

fun num_mul :: "jsnum \<Rightarrow> jsnum \<Rightarrow> jsnum" where
  "num_mul NaN b = NaN"
| "num_mul a NaN = NaN"
| "num_mul (Fin x) (Fin y) = Fin (x * y)"
| "num_mul (Fin x) PosInf = (if x = 0 then NaN else signedInf x)"
| "num_mul (Fin x) NegInf = (if x = 0 then NaN else signedInf (- x))"
| "num_mul PosInf (Fin y) = (if y = 0 then NaN else signedInf y)"
| "num_mul NegInf (Fin y) = (if y = 0 then NaN else signedInf (- y))"
| "num_mul PosInf PosInf = PosInf"
| "num_mul NegInf NegInf = PosInf"
| "num_mul PosInf NegInf = NegInf"
| "num_mul NegInf PosInf = NegInf"

text \<open>
  Division. A zero divisor is read as \<^verbatim>\<open>+0\<close> (the model has no signed zero):
  \<^verbatim>\<open>0/0\<close> is \<^verbatim>\<open>NaN\<close> and \<^verbatim>\<open>x/0\<close> the infinity with the sign of \<^verbatim>\<open>x\<close>.
\<close>

fun num_div :: "jsnum \<Rightarrow> jsnum \<Rightarrow> jsnum" where
  "num_div NaN b = NaN"
| "num_div a NaN = NaN"
| "num_div (Fin x) (Fin y) =
     (if y = 0 then (if x = 0 then NaN else signedInf x) else Fin (x / y))"
| "num_div (Fin x) PosInf = Fin 0"
| "num_div (Fin x) NegInf = Fin 0"
| "num_div PosInf (Fin y) = signedInf y"
| "num_div NegInf (Fin y) = signedInf (- y)"
| "num_div PosInf b = NaN"
| "num_div NegInf b = NaN"

fun num_abs :: "jsnum \<Rightarrow> jsnum" where
  "num_abs NaN = NaN"
| "num_abs NegInf = PosInf"
| "num_abs PosInf = PosInf"
| "num_abs (Fin x) = Fin \<bar>x\<bar>"

text \<open>\<^verbatim>\<open>a <= b\<close> on numbers: false as soon as one side is \<^verbatim>\<open>NaN\<close>.\<close>

fun num_le :: "jsnum \<Rightarrow> jsnum \<Rightarrow> bool" where
  "num_le NaN b = False"
| "num_le a NaN = False"
| "num_le NegInf b = True"
| "num_le a PosInf = True"
| "num_le PosInf b = False"
| "num_le a NegInf = False"
| "num_le (Fin x) (Fin y) = (x \<le> y)"

text \<open>\<^verbatim>\<open>a == b\<close> and \<^verbatim>\<open>a === b\<close> on numbers: \<^verbatim>\<open>NaN\<close> equals nothing, itself included.\<close>

definition num_eq :: "jsnum \<Rightarrow> jsnum \<Rightarrow> bool" where
  "num_eq a b = (if a = NaN then False else a = b)"

definition num_min :: "jsnum \<Rightarrow> jsnum \<Rightarrow> jsnum" where
  "num_min a b = (if a = NaN then NaN else if b = NaN then NaN else if num_le a b then a else b)"

definition num_max :: "jsnum \<Rightarrow> jsnum \<Rightarrow> jsnum" where
  "num_max a b = (if a = NaN then NaN else if b = NaN then NaN else if num_le a b then b else a)"

subsection \<open>Conversion of strings to numbers\<close>

text \<open>
  \<^verbatim>\<open>Number(s)\<close> on a string, after the grammar \<^verbatim>\<open>StringNumericLiteral\<close> of ECMAScript:
  white space is trimmed, the empty string is 0, then an optionally signed decimal literal
  (digits, fraction, exponent, or \<^verbatim>\<open>Infinity\<close>) or an unsigned hexadecimal, octal or binary
  integer; anything else is \<^verbatim>\<open>NaN\<close>. Characters are 8-bit here (the code units below 256):
  the white space trimmed is the ASCII one and the no-break space; the white space of higher
  code units is not represented.
\<close>

definition isStrWhiteSpaceChar :: "char \<Rightarrow> bool" where
  "isStrWhiteSpaceChar c =
     (c \<in> set [CHR 0x09, CHR 0x0A, CHR 0x0B, CHR 0x0C, CHR 0x0D, CHR '' '', CHR 0xA0])"

definition trimString :: "string \<Rightarrow> string" where
  "trimString s = rev (dropWhile isStrWhiteSpaceChar (rev (dropWhile isStrWhiteSpaceChar s)))"

definition hexDigitValue :: "char \<Rightarrow> nat option" where
  "hexDigitValue c =
     (let n = (of_char c :: nat) in
      if 48 \<le> n \<and> n \<le> 57 then Some (n - 48)
      else if 65 \<le> n \<and> n \<le> 70 then Some (n - 55)
      else if 97 \<le> n \<and> n \<le> 102 then Some (n - 87)
      else None)"

definition isDigitIn :: "nat \<Rightarrow> char \<Rightarrow> bool" where
  "isDigitIn base c = (case hexDigitValue c of None \<Rightarrow> False | Some v \<Rightarrow> v < base)"

definition digitsValue :: "nat \<Rightarrow> string \<Rightarrow> nat" where
  "digitsValue base ds =
     foldl (\<lambda>acc c. acc * base + (case hexDigitValue c of None \<Rightarrow> 0 | Some v \<Rightarrow> v)) 0 ds"

text \<open>\<^verbatim>\<open>ExponentPart\<close>, optional: nothing, or e/E, an optional sign and at least one digit.\<close>

definition parseExponent :: "string \<Rightarrow> int option" where
  "parseExponent r =
     (case r of
        [] \<Rightarrow> Some 0
      | c # t \<Rightarrow>
          if c = CHR ''e'' \<or> c = CHR ''E'' then
            (let neg = (case t of [] \<Rightarrow> False | s # u \<Rightarrow> s = CHR ''-'');
                 ds = (case t of [] \<Rightarrow> [] | s # u \<Rightarrow> if s = CHR ''+'' \<or> s = CHR ''-'' then u else t)
             in if ds \<noteq> [] \<and> list_all (isDigitIn 10) ds
                then Some (if neg then - int (digitsValue 10 ds) else int (digitsValue 10 ds))
                else None)
          else None)"

definition scale10 :: "real \<Rightarrow> int \<Rightarrow> real" where
  "scale10 m e = (if 0 \<le> e then m * 10 ^ nat e else m / 10 ^ nat (- e))"

definition StrUnsignedDecimalLiteral :: "string \<Rightarrow> jsnum option" where
  "StrUnsignedDecimalLiteral s =
     (if s = ''Infinity'' then Some PosInf
      else
        let ip = takeWhile (isDigitIn 10) s;
            r1 = dropWhile (isDigitIn 10) s;
            dot = (case r1 of [] \<Rightarrow> False | c # t \<Rightarrow> c = CHR ''.'');
            fp = (if dot then takeWhile (isDigitIn 10) (tl r1) else []);
            r2 = (if dot then dropWhile (isDigitIn 10) (tl r1) else r1)
        in if ip = [] \<and> fp = [] then None
           else (case parseExponent r2 of
                   None \<Rightarrow> None
                 | Some e \<Rightarrow> Some (Fin (scale10 (real (digitsValue 10 (ip @ fp))) (e - int (length fp))))))"

definition StrDecimalLiteral :: "string \<Rightarrow> jsnum option" where
  "StrDecimalLiteral s =
     (case s of
        [] \<Rightarrow> None
      | c # t \<Rightarrow>
          if c = CHR ''+'' then StrUnsignedDecimalLiteral t
          else if c = CHR ''-'' then map_option num_neg (StrUnsignedDecimalLiteral t)
          else StrUnsignedDecimalLiteral s)"

definition NonDecimalIntegerLiteral :: "string \<Rightarrow> jsnum option" where
  "NonDecimalIntegerLiteral s =
     (case s of
        z # x # ds \<Rightarrow>
          (let base = (if x = CHR ''x'' \<or> x = CHR ''X'' then 16
                       else if x = CHR ''o'' \<or> x = CHR ''O'' then 8
                       else if x = CHR ''b'' \<or> x = CHR ''B'' then 2 else (0::nat))
           in if z = CHR ''0'' \<and> base \<noteq> 0 \<and> ds \<noteq> [] \<and> list_all (isDigitIn base) ds
              then Some (Fin (real (digitsValue base ds)))
              else None)
      | _ \<Rightarrow> None)"

definition StringToNumber :: "string \<Rightarrow> jsnum" where
  "StringToNumber s =
     (let t = trimString s in
      if t = [] then Fin 0
      else (case NonDecimalIntegerLiteral t of
              Some n \<Rightarrow> n
            | None \<Rightarrow> (case StrDecimalLiteral t of Some n \<Rightarrow> n | None \<Rightarrow> NaN)))"

subsection \<open>The built-in operations the code uses\<close>

fun ToNumber :: "jsval \<Rightarrow> jsnum" where
  "ToNumber Undefined = NaN"
| "ToNumber (Str s) = StringToNumber s"
| "ToNumber (Num n) = n"

text \<open>The global \<^verbatim>\<open>isNaN\<close> converts its argument to a number first.\<close>

definition isNaN :: "jsval \<Rightarrow> bool" where
  "isNaN v = (ToNumber v = NaN)"

text \<open>
  \<^verbatim>\<open>Number.isInteger\<close> does not convert: it is false for every value that is not of type
  number, and for a number it asks for a finite whole one.
\<close>

fun Number_isInteger :: "jsval \<Rightarrow> bool" where
  "Number_isInteger (Num (Fin x)) = (of_int \<lfloor>x\<rfloor> = x)"
| "Number_isInteger v = False"

text \<open>Truthiness, as \<^verbatim>\<open>if (v)\<close> and \<^verbatim>\<open>v && ...\<close> read a value.\<close>

fun truthy :: "jsval \<Rightarrow> bool" where
  "truthy Undefined = False"
| "truthy (Str s) = (s \<noteq> [])"
| "truthy (Num n) = (n \<noteq> NaN \<and> n \<noteq> Fin 0)"

text \<open>\<^verbatim>\<open>String.prototype.toUpperCase\<close> on the ASCII letters.\<close>

definition toUpperCase :: "string \<Rightarrow> string" where
  "toUpperCase s =
     map (\<lambda>c. case map_of (zip ''abcdefghijklmnopqrstuvwxyz'' ''ABCDEFGHIJKLMNOPQRSTUVWXYZ'') c of
                None \<Rightarrow> c
              | Some u \<Rightarrow> u) s"

text \<open>
  Loose equality \<^verbatim>\<open>a == b\<close> on these values: strings by content, a string against a
  number by the string's numeric value, \<^verbatim>\<open>undefined\<close> only against itself.
\<close>

fun loose_eq :: "jsval \<Rightarrow> jsval \<Rightarrow> bool" where
  "loose_eq Undefined Undefined = True"
| "loose_eq (Str s) (Str t) = (s = t)"
| "loose_eq (Str s) (Num n) = num_eq (StringToNumber s) n"
| "loose_eq (Num n) (Str s) = num_eq n (StringToNumber s)"
| "loose_eq (Num m) (Num n) = num_eq m n"
| "loose_eq a b = False"

text \<open>Arithmetic on values converts both operands with \<^verbatim>\<open>ToNumber\<close>.\<close>

definition js_minus :: "jsval \<Rightarrow> jsval \<Rightarrow> jsnum" where
  "js_minus a b = num_sub (ToNumber a) (ToNumber b)"

definition Math_min :: "jsval \<Rightarrow> jsval \<Rightarrow> jsnum" where
  "Math_min a b = num_min (ToNumber a) (ToNumber b)"

definition Math_max :: "jsval \<Rightarrow> jsval \<Rightarrow> jsnum" where
  "Math_max a b = num_max (ToNumber a) (ToNumber b)"

text \<open>Reading an array at an index: \<^verbatim>\<open>undefined\<close> past its end.\<close>

definition elemAt :: "jsval list \<Rightarrow> nat \<Rightarrow> jsval" where
  "elemAt xs i = (if i < length xs then xs ! i else Undefined)"

section \<open>Database: the CSV parser\<close>

definition COMMA :: char where "COMMA = CHR '',''"
definition LF :: char where "LF = CHR 0x0A"
definition CR :: char where "CR = CHR 0x0D"
definition DQUOTE :: char where "DQUOTE = CHR 0x22"

text \<open>
  One match of \<^verbatim>\<open>csvRegex\<close>,
  \<^verbatim>\<open>/(\,|\r?\n|\r|^)(?:"([^"]*(?:""[^"]*)*)"|([^\,\r\n]*))/gi\<close>:
  the three capture groups (a group that took no part in the match is \<^verbatim>\<open>undefined\<close>, here
  \<open>None\<close>) and the text from the new \<^verbatim>\<open>lastIndex\<close> on.
\<close>

record regex_match =
  delimiter :: string
  quotedValue :: "string option"
  unquotedValue :: "string option"
  rest :: string

text \<open>
  Group 1 at the current position, its alternatives in the order written: a comma,
  \<^verbatim>\<open>\r?\n\<close>, \<^verbatim>\<open>\r\<close>, or \<^verbatim>\<open>^\<close>, which matches the empty string at index 0 only
  (\<open>atStart\<close>). What follows group 1 can match the empty string, so the first alternative
  that matches is the one taken. The result is the delimiter and the text after it.
\<close>

definition matchDelimiter :: "bool \<Rightarrow> string \<Rightarrow> (string \<times> string) option" where
  "matchDelimiter atStart text =
     (if take 1 text = [COMMA] then Some ([COMMA], drop 1 text)
      else if take 2 text = [CR, LF] then Some ([CR, LF], drop 2 text)
      else if take 1 text = [LF] then Some ([LF], drop 1 text)
      else if take 1 text = [CR] then Some ([CR], drop 1 text)
      else if atStart then Some ([], text)
      else None)"

text \<open>
  \<^verbatim>\<open>[^"]*(?:""[^"]*)*"\<close> on the text after an opening quote: the captured content and the
  text after the closing quote. A character other than a quote is consumed. At two quotes
  in a row the greedy star first takes them as an escaped pair and goes on; when no closing
  quote follows, the regex backtracks and the first quote of the pair closes the value. A
  quote followed by anything else closes the value. With no quote left there is no match.
\<close>

fun quotedBody :: "string \<Rightarrow> (string \<times> string) option" where
  "quotedBody [] = None"
| "quotedBody [c] = (if c = DQUOTE then Some ([], []) else None)"
| "quotedBody (c # c2 # cs) =
     (if c \<noteq> DQUOTE then
        (case quotedBody (c2 # cs) of None \<Rightarrow> None | Some (v, r) \<Rightarrow> Some (c # v, r))
      else if c2 = DQUOTE then
        (case quotedBody cs of None \<Rightarrow> Some ([], c2 # cs) | Some (v, r) \<Rightarrow> Some (c # c2 # v, r))
      else Some ([], c2 # cs))"

definition notSeparator :: "char \<Rightarrow> bool" where
  "notSeparator c = (c \<noteq> COMMA \<and> c \<noteq> CR \<and> c \<noteq> LF)"

text \<open>
  The whole pattern at the current position: the delimiter, then the quoted alternative,
  and when that fails the unquoted one, \<^verbatim>\<open>[^\,\r\n]*\<close>, which always matches.
\<close>

definition matchAt :: "bool \<Rightarrow> string \<Rightarrow> regex_match option" where
  "matchAt atStart text =
     (case matchDelimiter atStart text of
        None \<Rightarrow> None
      | Some (d, r) \<Rightarrow>
          (case (if take 1 r = [DQUOTE] then quotedBody (drop 1 r) else None) of
             Some (q, r') \<Rightarrow>
               Some \<lparr>delimiter = d, quotedValue = Some q, unquotedValue = None, rest = r'\<rparr>
           | None \<Rightarrow>
               Some \<lparr>delimiter = d, quotedValue = None,
                     unquotedValue = Some (takeWhile notSeparator r),
                     rest = dropWhile notSeparator r\<rparr>))"

text \<open>
  \<^verbatim>\<open>csvRegex.exec(csvText)\<close> with the global flag: the first position from \<^verbatim>\<open>lastIndex\<close> on
  where the pattern matches. The argument is the text from \<^verbatim>\<open>lastIndex\<close> on, and \<open>atStart\<close>
  says that \<^verbatim>\<open>lastIndex\<close> is 0. \<open>None\<close> is the result \<^verbatim>\<open>null\<close>.
\<close>

fun exec :: "bool \<Rightarrow> string \<Rightarrow> regex_match option" where
  "exec atStart [] = matchAt atStart []"
| "exec atStart (c # cs) =
     (case matchAt atStart (c # cs) of Some m \<Rightarrow> Some m | None \<Rightarrow> exec False cs)"

text \<open>\<^verbatim>\<open>s.replace(/""/g,"\"")\<close>: every pair of quotes, left to right, becomes one quote.\<close>

fun unescapeQuotes :: "string \<Rightarrow> string" where
  "unescapeQuotes (c # c2 # cs) =
     (if c = DQUOTE \<and> c2 = DQUOTE then DQUOTE # unescapeQuotes cs else c # unescapeQuotes (c2 # cs))"
| "unescapeQuotes cs = cs"

datatype js_error = TypeError

text \<open>
  \<^verbatim>\<open>data[data.length-1].push(v)\<close>: with no row in \<^verbatim>\<open>data\<close> the element read is
  \<^verbatim>\<open>undefined\<close> and the call throws.
\<close>

definition pushToLastRow :: "string option list list \<Rightarrow> string option \<Rightarrow> js_error + string option list list" where
  "pushToLastRow data v = (if data = [] then Inl TypeError else Inr (butlast data @ [last data @ [v]]))"

text \<open>The body of the \<^verbatim>\<open>while\<close> loop of \<^verbatim>\<open>parseCSV\<close>, for one match.\<close>

definition parseMatch :: "regex_match \<Rightarrow> string option list list \<Rightarrow> js_error + string option list list" where
  "parseMatch m data =
     (let data1 = (if delimiter m \<noteq> [COMMA] then data @ [[]] else data) in
      case quotedValue m of
        Some q \<Rightarrow> pushToLastRow data1 (Some (unescapeQuotes q))
      | None \<Rightarrow>
          (case unquotedValue m of
             None \<Rightarrow> Inl TypeError
           | Some v \<Rightarrow> pushToLastRow data1 (if v = [] then None else Some (unescapeQuotes v))))"

text \<open>
  The \<^verbatim>\<open>while (matches = csvRegex.exec(csvText))\<close> loop. \<^verbatim>\<open>exec\<close> leaves \<^verbatim>\<open>lastIndex\<close> at
  the end of the match, so a match of length zero is found again for ever: the loop is a
  partial function, \<open>None\<close> when it does not return.
\<close>

partial_function (option) parseLoop ::
  "bool \<Rightarrow> string \<Rightarrow> string option list list \<Rightarrow> (js_error + string option list list) option" where
  "parseLoop atStart text data =
     (case exec atStart text of
        None \<Rightarrow> Some (Inr data)
      | Some m \<Rightarrow>
          (case parseMatch m data of
             Inl e \<Rightarrow> Some (Inl e)
           | Inr data' \<Rightarrow> parseLoop (atStart \<and> length (rest m) = length text) (rest m) data'))"

definition dropStrayLastLine :: "string option list list \<Rightarrow> string option list list" where
  "dropStrayLastLine data =
     (if length data > 1 \<and> length (last data) = 1 \<and> last data ! 0 = None then butlast data else data)"

definition parseCSV :: "string \<Rightarrow> (js_error + string option list list) option" where
  "parseCSV csvText =
     (if csvText = [] then Some (Inr [])
      else (case parseLoop True csvText [] of
              None \<Rightarrow> None
            | Some (Inl e) \<Rightarrow> Some (Inl e)
            | Some (Inr data) \<Rightarrow> Some (Inr (dropStrayLastLine data))))"

section \<open>Database: loading, types and domains\<close>

text \<open>
  \<^verbatim>\<open>checkErrors\<close>: an error message, or nothing (\<open>None\<close>) for data that can be loaded.
\<close>

definition checkErrors :: "string option list list \<Rightarrow> string option" where
  "checkErrors data =
     (if length data < 2 then Some ''The first and second lines in the file are required.''
      else if length (data ! 0) < 2 then Some ''The dataset must include at least two dimensions''
      else if list_ex (\<lambda>v. v = None) (data ! 0)
        then Some ''Empty values may not occur in the header (first line).''
      else if list_ex (\<lambda>line. length line \<noteq> length (data ! 0)) data
        then Some ''Each line must have an equal number of comma separated values (columns).''
      else None)"

datatype dimension_type = INTEGER | FLOAT | STRING

record database =
  data :: "jsobj list"
  dimensions :: "string list"
  dimensionTypes :: "string \<rightharpoonup> dimension_type"
  dimensionDomains :: "string \<rightharpoonup> jsval list"

text \<open>A cell of the parsed file as a value, and as a property name.\<close>

fun cellValue :: "string option \<Rightarrow> jsval" where
  "cellValue None = Undefined"
| "cellValue (Some s) = Str s"

fun propertyName :: "string option \<Rightarrow> string" where
  "propertyName None = ''undefined''"
| "propertyName (Some s) = s"

text \<open>
  \<^verbatim>\<open>self.dimensions.forEach(function(p,i){obj[p] = d[i];})\<close>: the row as an object. A cell
  past the end of the line reads \<^verbatim>\<open>undefined\<close>.
\<close>

definition rowObject :: "string list \<Rightarrow> string option list \<Rightarrow> jsobj" where
  "rowObject dims d =
     fold (\<lambda>i obj. obj(dims ! i := (if i < length d then cellValue (d ! i) else Undefined)))
       [0..<length dims] emptyObject"

text \<open>
  The first loop over the rows of a dimension: the first truthy value, and when there is
  none the value \<open>val\<close> had before, which is that of row 0.
\<close>

fun firstTruthy :: "string \<Rightarrow> jsobj list \<Rightarrow> jsval \<Rightarrow> jsval" where
  "firstTruthy d [] val = val"
| "firstTruthy d (p # ps) val = (if truthy (p d) then p d else firstTruthy d ps val)"

text \<open>
  \<^verbatim>\<open>val.toUpperCase() === "NAN"\<close>. It is evaluated only for a truthy \<^verbatim>\<open>val\<close> on which
  \<^verbatim>\<open>isNaN\<close> is true, which a number never is, so \<^verbatim>\<open>val\<close> is a string there.
\<close>

fun isNaNText :: "jsval \<Rightarrow> bool" where
  "isNaNText (Str s) = (toUpperCase s = ''NAN'')"
| "isNaNText v = False"

text \<open>
  The second loop, from the first row whose value is not \<^verbatim>\<open>NaN\<close>: the running minimum and
  maximum over the rows that are not \<^verbatim>\<open>NaN\<close>.
\<close>

fun minMaxLoop :: "string \<Rightarrow> jsobj list \<Rightarrow> jsval \<Rightarrow> jsval \<Rightarrow> jsval \<times> jsval" where
  "minMaxLoop d [] mn mx = (mn, mx)"
| "minMaxLoop d (p # ps) mn mx =
     (if \<not> isNaN (p d)
      then minMaxLoop d ps (Num (Math_min mn (p d))) (Num (Math_max mx (p d)))
      else minMaxLoop d ps mn mx)"

definition numericDomain :: "string \<Rightarrow> jsobj list \<Rightarrow> jsval list" where
  "numericDomain d rows =
     (case dropWhile (\<lambda>p. isNaN (p d)) rows of
        [] \<Rightarrow> [Num (Fin 0), Num (Fin 0)]
      | p # ps \<Rightarrow> (case minMaxLoop d (p # ps) (p d) (p d) of (mn, mx) \<Rightarrow> [mn, mx]))"

text \<open>
  The body of \<^verbatim>\<open>self.dimensions.forEach\<close> in the constructor: the type and the domain of
  dimension \<open>d\<close>. Reading \<^verbatim>\<open>self.data[0][d]\<close> throws when there is no row.
\<close>

definition dimensionTypeAndDomain :: "string \<Rightarrow> jsobj list \<Rightarrow> js_error + dimension_type \<times> jsval list" where
  "dimensionTypeAndDomain d rows =
     (case rows of
        [] \<Rightarrow> Inl TypeError
      | p0 # ps \<Rightarrow>
          (let val = firstTruthy d rows (p0 d) in
           if truthy val \<and> (\<not> isNaN val \<or> isNaNText val) then
             Inr (if isNaN val \<or> \<not> Number_isInteger val then FLOAT else INTEGER,
                  numericDomain d rows)
           else Inr (STRING, map (\<lambda>p. p d) rows)))"

fun setTypesAndDomains :: "string list \<Rightarrow> database \<Rightarrow> js_error + database" where
  "setTypesAndDomains [] self = Inr self"
| "setTypesAndDomains (d # ds) self =
     (case dimensionTypeAndDomain d (data self) of
        Inl e \<Rightarrow> Inl e
      | Inr (ty, domain) \<Rightarrow>
          setTypesAndDomains ds
            (self\<lparr>dimensionTypes := (dimensionTypes self)(d \<mapsto> ty),
                  dimensionDomains := (dimensionDomains self)(d \<mapsto> domain)\<rparr>))"

datatype load_error = DataError string | Thrown js_error

text \<open>
  The constructor \<^verbatim>\<open>CINEMA_COMPONENTS.Database\<close>, from the parsed \<^verbatim>\<open>data.csv\<close> on (the
  request for the file and the optional \<^verbatim>\<open>axis_order.csv\<close> are left out).
\<close>

definition Database :: "string option list list \<Rightarrow> load_error + database" where
  "Database data_arr =
     (case checkErrors data_arr of
        Some msg \<Rightarrow> Inl (DataError msg)
      | None \<Rightarrow>
          (let dims = map propertyName (data_arr ! 0);
               self = \<lparr>data = map (rowObject dims) (drop 1 data_arr), dimensions = dims,
                       dimensionTypes = Map.empty, dimensionDomains = Map.empty\<rparr>
           in case setTypesAndDomains dims self of
                Inl e \<Rightarrow> Inl (Thrown e)
              | Inr self' \<Rightarrow> Inr self'))"

text \<open>Loading from the text of \<^verbatim>\<open>data.csv\<close>; \<open>None\<close> when the parser does not return.\<close>

definition DatabaseFromText :: "string \<Rightarrow> (load_error + database) option" where
  "DatabaseFromText csvText =
     (case parseCSV csvText of
        None \<Rightarrow> None
      | Some (Inl e) \<Rightarrow> Some (Inl (Thrown e))
      | Some (Inr data_arr) \<Rightarrow> Some (Database data_arr))"

definition isStringDimension :: "database \<Rightarrow> string \<Rightarrow> bool" where
  "isStringDimension self dimension = (dimensionTypes self dimension = Some STRING)"

section \<open>Database: similarity query\<close>

definition getNormalizedValue :: "jsval \<Rightarrow> jsval \<Rightarrow> jsval \<Rightarrow> jsnum" where
  "getNormalizedValue val mn mx =
     (if num_eq (js_minus mx mn) (Fin 0) then Fin 0
      else num_div (js_minus val mn) (js_minus mx mn))"

text \<open>
  What one dimension adds to \<^verbatim>\<open>dist\<close> for one row; 0 stands for adding nothing. Reading
  the domain of a dimension that has none throws. (The variable \<^verbatim>\<open>dist\<close> is \<open>distance\<close>
  below.)
\<close>

definition dimensionDistance :: "database \<Rightarrow> jsobj \<Rightarrow> jsobj \<Rightarrow> string \<Rightarrow> js_error + jsnum" where
  "dimensionDistance self query row d =
     (if query d \<noteq> Undefined then
        (if isStringDimension self d then Inr (if loose_eq (row d) (query d) then Fin 0 else Fin 1)
         else if isNaN (query d) then Inr (if isNaN (row d) then Fin 0 else Fin 1)
         else if row d = Undefined then Inr (Fin 1)
         else (case dimensionDomains self d of
                 None \<Rightarrow> Inl TypeError
               | Some extent \<Rightarrow>
                   Inr (num_abs (num_sub
                          (getNormalizedValue (query d) (elemAt extent 0) (elemAt extent 1))
                          (getNormalizedValue (row d) (elemAt extent 0) (elemAt extent 1))))))
      else Inr (Fin 0))"

text \<open>The inner \<^verbatim>\<open>self.dimensions.forEach\<close>: \<^verbatim>\<open>dist\<close> after the dimensions \<open>ds\<close>.\<close>

fun rowDistance :: "database \<Rightarrow> jsobj \<Rightarrow> jsobj \<Rightarrow> string list \<Rightarrow> jsnum \<Rightarrow> js_error + jsnum" where
  "rowDistance self query row [] distance = Inr distance"
| "rowDistance self query row (d # ds) distance =
     (case dimensionDistance self query row d of
        Inl e \<Rightarrow> Inl e
      | Inr t \<Rightarrow> rowDistance self query row ds (num_add distance t))"

text \<open>The outer \<^verbatim>\<open>this.data.forEach\<close>, over the rows from index \<open>index\<close> on.\<close>

fun similarLoop ::
  "database \<Rightarrow> jsobj \<Rightarrow> jsnum \<Rightarrow> jsobj list \<Rightarrow> nat \<Rightarrow> nat list \<Rightarrow> js_error + nat list" where
  "similarLoop self query threshold [] index similar = Inr similar"
| "similarLoop self query threshold (row # rows) index similar =
     (case rowDistance self query row (dimensions self) (Fin 0) of
        Inl e \<Rightarrow> Inl e
      | Inr distance \<Rightarrow>
          similarLoop self query threshold rows (Suc index)
            (if num_le distance threshold then similar @ [index] else similar))"

definition getSimilar :: "database \<Rightarrow> jsobj \<Rightarrow> jsnum \<Rightarrow> js_error + nat list" where
  "getSimilar self query threshold = similarLoop self query threshold (data self) 0 []"

section \<open>Pcoord: brushes and the selection\<close>

text \<open>
  The selection of a brush as d3 reports it in \<^verbatim>\<open>d3.event.selection\<close>: \<^verbatim>\<open>null\<close> or the
  array \<^verbatim>\<open>[lo, hi]\<close>. In \<^verbatim>\<open>brushExtents\<close> a dimension has no entry (\<open>None\<close>), the entry
  \<^verbatim>\<open>null\<close>, or an extent.
\<close>

datatype brush_selection = NullSelection | Extent jsnum jsnum

text \<open>The calls of \<^verbatim>\<open>this.dispatch.call\<close> that concern the selection, with their argument.\<close>

datatype event = SelectionChange "nat list"

text \<open>
  The state of a parallel-coordinates component that the selection depends on. A d3 scale
  \<^verbatim>\<open>y[d]\<close> is kept as a function of the start of its range (the range is \<^verbatim>\<open>[start, 0]\<close>)
  and of the value; \<open>yRange\<close> holds the start each scale has now. \<open>shownDimensions\<close> is
  the component's own \<^verbatim>\<open>this.dimensions\<close>, the dimensions it shows. The drawing, the
  DOM and the dragging of axes are left out.
\<close>

record pcoord =
  db :: database
  shownDimensions :: "string list"
  marginTop :: jsnum
  marginBottom :: jsnum
  internalHeight :: jsnum
  NaNMargin :: jsnum
  y :: "string \<Rightarrow> jsnum \<Rightarrow> jsval \<Rightarrow> jsnum"
  yRange :: "string \<Rightarrow> jsnum"
  selection :: "nat list"
  brushExtents :: "string \<rightharpoonup> brush_selection"
  dontUpdateSelectionOnBrush :: bool
  dispatched :: "event list"

definition getYPosition :: "pcoord \<Rightarrow> string \<Rightarrow> jsobj \<Rightarrow> jsnum" where
  "getYPosition self d p =
     (if \<not> isStringDimension (db self) d \<and> isNaN (p d) then internalHeight self
      else y self d (yRange self d) (p d))"

text \<open>
  The loop \<^verbatim>\<open>for (var p in self.dimensions)\<close> of \<^verbatim>\<open>updateSelection\<close> for one row, over
  the dimensions still to visit: the value of \<^verbatim>\<open>selected\<close> at its end. Only an extent is
  truthy in \<^verbatim>\<open>if (extent)\<close>.
\<close>

fun rowSelected :: "pcoord \<Rightarrow> jsobj \<Rightarrow> string list \<Rightarrow> bool" where
  "rowSelected self d [] = True"
| "rowSelected self d (p # ps) =
     (case brushExtents self p of
        Some (Extent lo hi) \<Rightarrow>
          (if num_le lo (getYPosition self p d) \<and> num_le (getYPosition self p d) hi
           then rowSelected self d ps else False)
      | Some NullSelection \<Rightarrow> rowSelected self d ps
      | None \<Rightarrow> rowSelected self d ps)"

text \<open>\<^verbatim>\<open>this.db.data.forEach\<close>: the new selection over the rows from index \<open>i\<close> on.\<close>

fun selectionLoop :: "pcoord \<Rightarrow> jsobj list \<Rightarrow> nat \<Rightarrow> nat list \<Rightarrow> nat list" where
  "selectionLoop self [] i newSelection = newSelection"
| "selectionLoop self (d # ds) i newSelection =
     selectionLoop self ds (Suc i)
       (if rowSelected self d (shownDimensions self) then newSelection @ [i] else newSelection)"

definition newSelectionOf :: "pcoord \<Rightarrow> nat list" where
  "newSelectionOf self = selectionLoop self (data (db self)) 0 []"

fun arraysEqual :: "nat list \<Rightarrow> nat list \<Rightarrow> bool" where
  "arraysEqual [] [] = True"
| "arraysEqual (a # as) (b # bs) = (if a \<noteq> b then False else arraysEqual as bs)"
| "arraysEqual as bs = False"

definition updateSelection :: "bool \<Rightarrow> pcoord \<Rightarrow> pcoord" where
  "updateSelection force self =
     (let newSelection = newSelectionOf self in
      if \<not> arraysEqual (selection self) newSelection \<or> force
      then self\<lparr>selection := newSelection,
                dispatched := dispatched self @ [SelectionChange newSelection]\<rparr>
      else self)"

text \<open>
  The brush event handler \<^verbatim>\<open>axisBrush\<close>. \<open>ev\<close> is \<^verbatim>\<open>d3.event\<close>: \<open>None\<close> when the handler
  is called by hand, otherwise the selection the event carries.
\<close>

definition axisBrush :: "string \<Rightarrow> brush_selection option \<Rightarrow> pcoord \<Rightarrow> pcoord" where
  "axisBrush d ev self =
     (let self1 =
        (case ev of
           None \<Rightarrow> self
         | Some sel \<Rightarrow>
             (let stored = self\<lparr>brushExtents := (brushExtents self)(d \<mapsto> sel)\<rparr> in
              case brushExtents stored d of
                Some (Extent lo hi) \<Rightarrow>
                  if num_eq lo hi then stored\<lparr>brushExtents := (brushExtents stored)(d := None)\<rparr>
                  else stored
              | Some NullSelection \<Rightarrow> stored
              | None \<Rightarrow> stored))
      in if \<not> dontUpdateSelectionOnBrush self1 then updateSelection False self1 else self1)"

text \<open>
  \<^verbatim>\<open>d3.select(this).call(self.brush.move, f)\<close> for the brush of dimension \<open>d\<close>, where \<open>sel\<close>
  is what \<^verbatim>\<open>f\<close> returns. d3-brush stores (\<open>brushState\<close>) \<^verbatim>\<open>null\<close> for an interval that is \<^verbatim>\<open>null\<close> or
  empty (\<^verbatim>\<open>lo === hi\<close>) and then emits \<^verbatim>\<open>start\<close>, \<^verbatim>\<open>brush\<close> and \<^verbatim>\<open>end\<close> at once;
  \<^verbatim>\<open>axisBrush\<close> is the listener of the first two.
\<close>

fun brushState :: "brush_selection \<Rightarrow> brush_selection" where
  "brushState NullSelection = NullSelection"
| "brushState (Extent lo hi) = (if num_eq lo hi then NullSelection else Extent lo hi)"

definition brushMove :: "string \<Rightarrow> brush_selection \<Rightarrow> pcoord \<Rightarrow> pcoord" where
  "brushMove d sel self =
     axisBrush d (Some (brushState sel)) (axisBrush d (Some (brushState sel)) self)"

text \<open>
  The function given to \<^verbatim>\<open>brush.move\<close> in \<^verbatim>\<open>updateSize\<close>: \<^verbatim>\<open>null\<close> for a dimension
  without extent, otherwise both ends times the new height over the old one.
\<close>

definition rescaledExtent :: "jsnum \<Rightarrow> pcoord \<Rightarrow> string \<Rightarrow> brush_selection" where
  "rescaledExtent oldHeight self d =
     (case brushExtents self d of
        Some (Extent lo hi) \<Rightarrow>
          Extent (num_mul (num_div lo oldHeight) (internalHeight self))
                 (num_mul (num_div hi oldHeight) (internalHeight self))
      | Some NullSelection \<Rightarrow> NullSelection
      | None \<Rightarrow> NullSelection)"

text \<open>
  \<^verbatim>\<open>Pcoord.prototype.updateSize\<close>. \<open>parentHeight\<close> is the height of the parent's
  rectangle, which \<^verbatim>\<open>Component.prototype.updateSize\<close> reads from the DOM. The brushes are
  those of the axes, one for each shown dimension.
\<close>

definition updateSize :: "jsnum \<Rightarrow> pcoord \<Rightarrow> pcoord" where
  "updateSize parentHeight self =
     (let oldHeight = internalHeight self;
          self1 = self\<lparr>internalHeight :=
                    num_sub (num_sub parentHeight (marginTop self)) (marginBottom self)\<rparr>;
          self2 = self1\<lparr>NaNMargin := num_div (internalHeight self1) (Fin 11)\<rparr>;
          self3 = self2\<lparr>yRange :=
                    fold (\<lambda>d r. r(d := (if isStringDimension (db self2) d then internalHeight self2
                                        else num_sub (internalHeight self2) (NaNMargin self2))))
                      (shownDimensions self2) (yRange self2)\<rparr>;
          self4 = self3\<lparr>dontUpdateSelectionOnBrush := True\<rparr>;
          self5 = fold (\<lambda>d s. brushMove d (rescaledExtent oldHeight s d) s)
                    (shownDimensions self4) self4
      in self5\<lparr>dontUpdateSelectionOnBrush := False\<rparr>)"

section \<open>Pick-index codec (PcoordCanvas and ScatterPlotCanvas)\<close>

text \<open>
  \<^verbatim>\<open>indexToColor\<close> returns the CSS colour \<^verbatim>\<open>'rgb(r,g,b)'\<close>; the model keeps the three
  numbers it prints. An index is a whole number, so \<^verbatim>\<open>Math.floor(i/256/256)\<close> is the
  integer quotient, rounded down.
\<close>

datatype color = RGB int int int

definition indexToColor :: "int \<Rightarrow> color" where
  "indexToColor i0 =
     (if i0 > 256*256*256 then RGB 255 255 255
      else
        (let i = i0 + 1;
             b = i div 256 div 256;
             g = (i - b*256*256) div 256;
             r = i - b*256*256 - g*256
         in RGB r g b))"

fun colorToIndex :: "color \<Rightarrow> int" where
  "colorToIndex (RGB r g b) = (r + g*256 + b*256*256) - 1"

section \<open>Examples\<close>

text \<open>
  A database of two rows and a component over it, used to run the definitions. The scale of
  the example is linear: the start of the range at the minimum of the domain, 0 at the
  maximum.
\<close>

definition example_db :: database where
  "example_db =
     \<lparr>data = [emptyObject(''a'' := Str ''1'', ''b'' := Str ''2''),
              emptyObject(''a'' := Str ''3'', ''b'' := Str ''4'')],
      dimensions = [''a'', ''b''],
      dimensionTypes = [''a'' \<mapsto> FLOAT, ''b'' \<mapsto> FLOAT],
      dimensionDomains = [''a'' \<mapsto> [Num (Fin 1), Num (Fin 3)], ''b'' \<mapsto> [Num (Fin 2), Num (Fin 4)]]\<rparr>"

definition example_scale :: "string \<Rightarrow> jsnum \<Rightarrow> jsval \<Rightarrow> jsnum" where
  "example_scale d r v =
     (case dimensionDomains example_db d of
        None \<Rightarrow> NaN
      | Some e \<Rightarrow> num_mul r (num_sub (Fin 1) (getNormalizedValue v (elemAt e 0) (elemAt e 1))))"

definition example_pcoord :: pcoord where
  "example_pcoord =
     \<lparr>db = example_db, shownDimensions = [''a'', ''b''],
      marginTop = Fin 30, marginBottom = Fin 10, internalHeight = Fin 110, NaNMargin = Fin 10,
      y = example_scale, yRange = (\<lambda>d. Fin 100), selection = [0, 1],
      brushExtents = Map.empty, dontUpdateSelectionOnBrush = False, dispatched = []\<rparr>"

text \<open>
  A brush event on the axis of \<open>a\<close>: the component once the extent is stored, and once the
  selection is recomputed and the notification dispatched.
\<close>

definition example_stored :: pcoord where
  "example_stored = example_pcoord\<lparr>brushExtents := [''a'' \<mapsto> Extent (Fin (- 5)) (Fin 50)]\<rparr>"

definition example_brushed :: pcoord where
  "example_brushed = example_stored\<lparr>selection := [1], dispatched := [SelectionChange [1]]\<rparr>"

text \<open>The brushed component with the dimension \<open>a\<close> shown on two axes.\<close>

definition example_duplicate :: pcoord where
  "example_duplicate = example_brushed\<lparr>shownDimensions := [''a'', ''a'']\<rparr>"

text \<open>
  The text of a \<^verbatim>\<open>data.csv\<close> with whole numbers only, a parsed file whose second column
  is missing in every row, and a file with one missing value.
\<close>

definition example_text :: string where
  "example_text = ''a,b'' @ [LF] @ ''1,2'' @ [LF] @ ''3,4'' @ [LF]"

definition example_missing :: "string option list list" where
  "example_missing = [[Some ''a'', Some ''b''], [Some ''1'', None], [Some ''3'', None]]"

definition example_gap_text :: string where
  "example_gap_text = ''a,b'' @ [LF] @ ''1,2'' @ [LF] @ '',4'' @ [LF]"

definition example_gap_db :: database where
  "example_gap_db =
     \<lparr>data = [emptyObject(''a'' := Str ''1'', ''b'' := Str ''2''),
              emptyObject(''a'' := Undefined, ''b'' := Str ''4'')],
      dimensions = [''a'', ''b''],
      dimensionTypes = [''a'' \<mapsto> FLOAT, ''b'' \<mapsto> FLOAT],
      dimensionDomains = [''a'' \<mapsto> [Num (Fin 1), Num (Fin 1)], ''b'' \<mapsto> [Num (Fin 2), Num (Fin 4)]]\<rparr>"

section \<open>Evaluation\<close>

text \<open>The definitions an evaluation of the examples unfolds.\<close>

lemmas number_eval =
  StringToNumber_def trimString_def isStrWhiteSpaceChar_def NonDecimalIntegerLiteral_def
  StrDecimalLiteral_def StrUnsignedDecimalLiteral_def isDigitIn_def hexDigitValue_def
  parseExponent_def digitsValue_def scale10_def isNaN_def js_minus_def num_sub_def num_eq_def
  getNormalizedValue_def elemAt_def signedInf_def Math_min_def Math_max_def num_min_def num_max_def

lemmas example_eval =
  example_db_def example_scale_def example_pcoord_def example_stored_def example_brushed_def
  example_duplicate_def emptyObject_def
  getYPosition_def isStringDimension_def

lemmas parser_eval =
  parseCSV_def parseLoop.simps matchAt_def matchDelimiter_def COMMA_def LF_def CR_def DQUOTE_def
  notSeparator_def parseMatch_def pushToLastRow_def dropStrayLastLine_def

lemmas database_eval =
  DatabaseFromText_def Database_def checkErrors_def rowObject_def dimensionTypeAndDomain_def
  numericDomain_def toUpperCase_def emptyObject_def Let_def

lemmas similar_eval =
  getSimilar_def dimensionDistance_def isStringDimension_def

section \<open>Properties of the CSV parser\<close>

text \<open>
  The loop of \<^verbatim>\<open>parseCSV\<close> ends on every text: a match on a text that is not empty is
  not empty, so \<^verbatim>\<open>lastIndex\<close> grows.
\<close>

lemma quotedBody_shorter:
  "quotedBody cs = Some (v, r) \<Longrightarrow> length r < length cs"
proof (induction cs arbitrary: v r rule: quotedBody.induct)
  case 1
  then show ?case by simp
next
  case (2 c)
  then show ?case by (simp split: if_splits)
next
  case (3 c c2 cs)
  show ?case
  proof (cases "c \<noteq> DQUOTE")
    case True
    with "3.prems" obtain v' where "quotedBody (c2 # cs) = Some (v', r)"
      by (auto split: option.splits)
    with "3.IH"(1) True have "length r < length (c2 # cs)" by blast
    then show ?thesis by simp
  next
    case False
    note c = this
    show ?thesis
    proof (cases "c2 = DQUOTE")
      case True
      show ?thesis
      proof (cases "quotedBody cs")
        case None
        with "3.prems" c True show ?thesis by simp
      next
        case (Some a)
        then obtain v' r' where a: "a = (v', r')" by (cases a)
        with "3.prems" c True Some have "r = r'" by simp
        moreover from "3.IH"(2) c True Some a have "length r' < length cs" by blast
        ultimately show ?thesis by simp
      qed
    next
      case False
      with "3.prems" c show ?thesis by simp
    qed
  qed
qed

lemma matchDelimiter_shorter:
  "matchDelimiter atStart csv = Some (d, r) \<Longrightarrow>
     length r \<le> length csv \<and> (length r = length csv \<longrightarrow> (r = csv \<and> (csv = [] \<or> notSeparator (hd csv))))"
  by (cases csv) (auto simp: matchDelimiter_def notSeparator_def split: if_splits)

lemma matchAt_progress:
  assumes "matchAt atStart csv = Some m" and "csv \<noteq> []"
  shows "length (rest m) < length csv"
proof -
  from assms(1) obtain d r where md: "matchDelimiter atStart csv = Some (d, r)"
    by (auto simp: matchAt_def split: option.splits)
  note dl = matchDelimiter_shorter [OF md]
  show ?thesis
  proof (cases "if take 1 r = [DQUOTE] then quotedBody (drop 1 r) else None")
    case None
    with assms(1) md have rm: "rest m = dropWhile notSeparator r"
      by (auto simp: matchAt_def)
    have le: "length (dropWhile notSeparator r) \<le> length r" by (rule length_dropWhile_le)
    show ?thesis
    proof (cases "length r = length csv")
      case True
      with dl assms(2) have "r = csv" "notSeparator (hd csv)" by auto
      with assms(2) length_dropWhile_le [of notSeparator "tl r"]
      have "length (dropWhile notSeparator r) < length r"
        by (cases csv) (simp_all add: le_imp_less_Suc)
      with True rm show ?thesis by simp
    next
      case False
      with dl le rm show ?thesis by simp
    qed
  next
    case (Some a)
    then obtain q r' where a: "a = (q, r')" by (cases a)
    with Some have qb: "quotedBody (drop 1 r) = Some (q, r')" by (simp split: if_splits)
    from quotedBody_shorter [OF qb] have "length r' < length r" by simp
    moreover from assms(1) md Some a have "rest m = r'" by (auto simp: matchAt_def)
    ultimately show ?thesis using dl by simp
  qed
qed

lemma exec_progress:
  "exec atStart csv = Some m \<Longrightarrow> csv \<noteq> [] \<Longrightarrow> length (rest m) < length csv"
proof (induction csv arbitrary: atStart)
  case Nil
  then show ?case by simp
next
  case (Cons c cs)
  show ?case
  proof (cases "matchAt atStart (c # cs)")
    case (Some m')
    with Cons.prems have "m' = m" by simp
    with Some matchAt_progress [of atStart "c # cs" m] show ?thesis by simp
  next
    case None
    with Cons.prems have e: "exec False cs = Some m" by simp
    have "cs \<noteq> []"
    proof
      assume "cs = []"
      with e show False by (simp add: matchAt_def matchDelimiter_def)
    qed
    with Cons.IH [OF e] show ?thesis by simp
  qed
qed

lemma exec_False_Nil: "exec False [] = None"
  by (simp add: matchAt_def matchDelimiter_def)

lemma parseLoop_False_returns:
  "\<exists>r. parseLoop False csv rows = Some r"
proof (induction csv arbitrary: rows rule: length_induct)
  case (1 csv)
  show ?case
  proof (cases "exec False csv")
    case None
    then show ?thesis by (subst parseLoop.simps) simp
  next
    case (Some m)
    then have ne: "csv \<noteq> []" using exec_False_Nil by auto
    from exec_progress [OF Some ne] have lt: "length (rest m) < length csv" .
    show ?thesis
    proof (cases "parseMatch m rows")
      case (Inl e)
      with Some show ?thesis by (subst parseLoop.simps) simp
    next
      case (Inr rows')
      from "1.IH" lt obtain r where "parseLoop False (rest m) rows' = Some r" by blast
      with Some Inr show ?thesis by (subst parseLoop.simps) simp
    qed
  qed
qed

lemma parseLoop_True_returns:
  assumes "csv \<noteq> []"
  shows "\<exists>r. parseLoop True csv rows = Some r"
proof (cases "exec True csv")
  case None
  then show ?thesis by (subst parseLoop.simps) simp
next
  case (Some m)
  from exec_progress [OF Some assms] have lt: "length (rest m) < length csv" .
  show ?thesis
  proof (cases "parseMatch m rows")
    case (Inl e)
    with Some show ?thesis by (subst parseLoop.simps) simp
  next
    case (Inr rows')
    from parseLoop_False_returns obtain r where "parseLoop False (rest m) rows' = Some r" by blast
    with Some Inr lt show ?thesis by (subst parseLoop.simps) simp
  qed
qed

lemma parseCSV_returns: "\<exists>r. parseCSV csvText = Some r"
proof (cases "csvText = []")
  case True
  then show ?thesis by (simp add: parseCSV_def)
next
  case False
  from parseLoop_True_returns [OF False] obtain r where "parseLoop True csvText [] = Some r"
    by blast
  with False show ?thesis by (cases r) (simp_all add: parseCSV_def)
qed

text \<open>
  What the loop body does with an empty value: \<^verbatim>\<open>undefined\<close> for an unquoted one, the
  empty string for a quoted one, as long as there is a row to push to.
\<close>

lemma parseMatch_empty_unquoted:
  assumes "quotedValue m = None" and "unquotedValue m = Some []"
    and "rows \<noteq> [] \<or> delimiter m \<noteq> [COMMA]"
  shows "\<exists>rows'. parseMatch m rows = Inr rows' \<and> rows' \<noteq> [] \<and> last (last rows') = None"
  using assms by (auto simp: parseMatch_def pushToLastRow_def Let_def)

lemma parseMatch_empty_quoted:
  assumes "quotedValue m = Some []"
    and "rows \<noteq> [] \<or> delimiter m \<noteq> [COMMA]"
  shows "\<exists>rows'. parseMatch m rows = Inr rows' \<and> rows' \<noteq> [] \<and> last (last rows') = Some []"
  using assms by (auto simp: parseMatch_def pushToLastRow_def Let_def)

lemma parseCSV_empty_fields_example:
  "parseCSV (''a,,'' @ [DQUOTE, DQUOTE]) = Some (Inr [[Some ''a'', None, Some '''']])"
  by (simp add: parser_eval)

text \<open>A quoted field keeps its comma, and a pair of quotes in it is one quote.\<close>

lemma parseCSV_quoted_example:
  "parseCSV (''a,b'' @ [LF, DQUOTE] @ ''x,y'' @ [DQUOTE] @ '',2'' @ [LF, DQUOTE] @ ''z''
               @ [DQUOTE, DQUOTE] @ ''w'' @ [DQUOTE] @ '',4'' @ [CR, LF])
     = Some (Inr [[Some ''a'', Some ''b''], [Some ''x,y'', Some ''2''],
                  [Some (''z'' @ [DQUOTE] @ ''w''), Some ''4'']])"
  by (simp add: parser_eval)

text \<open>
  A text that starts with a comma has an empty unquoted first field. The first match then
  has the comma as its delimiter, no row is added, and the push to the last row of an empty
  \<^verbatim>\<open>data\<close> throws.
\<close>

lemma parseCSV_leading_comma:
  "parseCSV (COMMA # r) = Some (Inl TypeError)"
proof -
  have md: "matchDelimiter True (COMMA # r) = Some ([COMMA], r)"
    by (simp add: matchDelimiter_def)
  have "\<exists>m. matchAt True (COMMA # r) = Some m \<and> delimiter m = [COMMA]"
    by (cases "if take 1 r = [DQUOTE] then quotedBody (drop 1 r) else None")
       (auto simp: matchAt_def md)
  then obtain m where m: "matchAt True (COMMA # r) = Some m" and d: "delimiter m = [COMMA]"
    by blast
  have "parseMatch m [] = Inl TypeError"
    using d by (simp add: parseMatch_def pushToLastRow_def split: option.splits)
  with m have "parseLoop True (COMMA # r) [] = Some (Inl TypeError)"
    by (subst parseLoop.simps) simp
  then show ?thesis by (simp add: parseCSV_def)
qed

text \<open>
  C9, on the code: on the text \<^verbatim>\<open>,x\<close>, whose first field is empty and unquoted, the
  parser returns no grid with \<^verbatim>\<open>undefined\<close> in that place, as C9 has it for every input
  text: it throws a \<^verbatim>\<open>TypeError\<close>.
\<close>

theorem parseCSV_leading_comma_throws:
  "parseCSV '',x'' = Some (Inl TypeError)"
  by (simp add: parser_eval)

section \<open>Properties of the loaded database\<close>

lemma parseCSV_example_text:
  "parseCSV example_text =
     Some (Inr [[Some ''a'', Some ''b''], [Some ''1'', Some ''2''], [Some ''3'', Some ''4'']])"
  by (simp add: example_text_def parser_eval)

lemma Database_example:
  "Database [[Some ''a'', Some ''b''], [Some ''1'', Some ''2''], [Some ''3'', Some ''4'']]
     = Inr example_db"
  by (simp add: database_eval number_eval example_db_def upt_conv_Cons)

lemma firstTruthy_none:
  "\<forall>p \<in> set ps. \<not> truthy (p d) \<Longrightarrow> firstTruthy d ps v = v"
  by (induction ps) auto

lemma firstTruthy_cases:
  "firstTruthy d ps v = v \<or> (\<exists>p \<in> set ps. firstTruthy d ps v = p d)"
  by (induction ps) auto

lemma setTypesAndDomains_result:
  assumes "setTypesAndDomains ds self = Inr self'"
  shows "data self' = data self \<and> dimensions self' = dimensions self
       \<and> (\<forall>d \<in> set ds. \<exists>ty dm. dimensionTypeAndDomain d (data self) = Inr (ty, dm)
                \<and> dimensionTypes self' d = Some ty \<and> dimensionDomains self' d = Some dm)
       \<and> (\<forall>d. d \<notin> set ds \<longrightarrow> dimensionTypes self' d = dimensionTypes self d
                \<and> dimensionDomains self' d = dimensionDomains self d)"
  using assms
proof (induction ds arbitrary: self)
  case Nil
  then show ?case by simp
next
  case (Cons a ds)
  from Cons.prems obtain ty dm where
    td: "dimensionTypeAndDomain a (data self) = Inr (ty, dm)"
    and rest: "setTypesAndDomains ds
                 (self\<lparr>dimensionTypes := (dimensionTypes self)(a \<mapsto> ty),
                       dimensionDomains := (dimensionDomains self)(a \<mapsto> dm)\<rparr>) = Inr self'"
    by (auto split: sum.splits)
  let ?s1 = "self\<lparr>dimensionTypes := (dimensionTypes self)(a \<mapsto> ty),
                   dimensionDomains := (dimensionDomains self)(a \<mapsto> dm)\<rparr>"
  note IH = Cons.IH [OF rest]
  have d1: "data ?s1 = data self" by simp
  from IH have i1: "data self' = data self" "dimensions self' = dimensions self" by simp_all
  from IH have i3: "\<forall>d \<in> set ds. \<exists>ty dm. dimensionTypeAndDomain d (data self) = Inr (ty, dm)
                \<and> dimensionTypes self' d = Some ty \<and> dimensionDomains self' d = Some dm"
    by simp
  from IH have i4: "\<forall>d. d \<notin> set ds \<longrightarrow> dimensionTypes self' d = dimensionTypes ?s1 d
                \<and> dimensionDomains self' d = dimensionDomains ?s1 d"
    by blast
  have a_ok: "\<exists>ty dm. dimensionTypeAndDomain a (data self) = Inr (ty, dm)
                \<and> dimensionTypes self' a = Some ty \<and> dimensionDomains self' a = Some dm"
  proof (cases "a \<in> set ds")
    case True
    with i3 show ?thesis by blast
  next
    case False
    with i4 have "dimensionTypes self' a = Some ty" "dimensionDomains self' a = Some dm" by simp_all
    with td show ?thesis by blast
  qed
  have c3: "\<forall>d \<in> set (a # ds). \<exists>ty dm. dimensionTypeAndDomain d (data self) = Inr (ty, dm)
                \<and> dimensionTypes self' d = Some ty \<and> dimensionDomains self' d = Some dm"
    using a_ok i3 by simp
  have c4: "\<forall>d. d \<notin> set (a # ds) \<longrightarrow> dimensionTypes self' d = dimensionTypes self d
                \<and> dimensionDomains self' d = dimensionDomains self d"
    using i4 by simp
  from i1 c3 c4 show ?case by blast
qed

lemma Database_loaded:
  assumes "Database data_arr = Inr self"
  shows "checkErrors data_arr = None
       \<and> dimensions self = map propertyName (data_arr ! 0)
       \<and> data self = map (rowObject (dimensions self)) (drop 1 data_arr)
       \<and> (\<forall>d \<in> set (dimensions self). \<exists>ty dm. dimensionTypeAndDomain d (data self) = Inr (ty, dm)
                \<and> dimensionTypes self d = Some ty \<and> dimensionDomains self d = Some dm)
       \<and> (\<forall>d. d \<notin> set (dimensions self) \<longrightarrow> dimensionTypes self d = None
                \<and> dimensionDomains self d = None)"
proof -
  let ?dims = "map propertyName (data_arr ! 0)"
  let ?s0 = "\<lparr>data = map (rowObject ?dims) (drop 1 data_arr), dimensions = ?dims,
               dimensionTypes = Map.empty, dimensionDomains = Map.empty\<rparr>"
  from assms have ce: "checkErrors data_arr = None"
    by (simp add: Database_def split: option.splits)
  with assms have "setTypesAndDomains ?dims ?s0 = Inr self"
    by (simp add: Database_def Let_def split: sum.splits)
  from setTypesAndDomains_result [OF this] ce show ?thesis by simp
qed

text \<open>Every value of a row built from the parsed file is a string or \<^verbatim>\<open>undefined\<close>.\<close>

lemma rowObject_not_Num: "rowObject dims cells k \<noteq> Num n"
proof -
  have "fold (\<lambda>i obj. obj(dims ! i := (if i < length cells then cellValue (cells ! i) else Undefined)))
          is obj k \<noteq> Num n" if "obj k \<noteq> Num n" for "is" obj
    using that
  proof (induction "is" arbitrary: obj)
    case Nil
    then show ?case by simp
  next
    case (Cons i "is")
    let ?v = "if i < length cells then cellValue (cells ! i) else Undefined"
    have "cellValue c \<noteq> Num n" for c by (cases c) simp_all
    then have "?v \<noteq> Num n" by simp
    with Cons.prems have "(obj(dims ! i := ?v)) k \<noteq> Num n" by simp
    then have "fold (\<lambda>i obj. obj(dims ! i := (if i < length cells then cellValue (cells ! i) else Undefined)))
          is (obj(dims ! i := ?v)) k \<noteq> Num n" by (rule Cons.IH)
    then show ?case unfolding fold.simps o_apply .
  qed
  then show ?thesis by (simp add: rowObject_def emptyObject_def)
qed

lemma Number_isInteger_only_numbers: "\<forall>n. v \<noteq> Num n \<Longrightarrow> \<not> Number_isInteger v"
  by (cases v) simp_all

lemma Database_never_INTEGER:
  assumes "Database data_arr = Inr self"
  shows "dimensionTypes self d \<noteq> Some INTEGER"
proof (cases "d \<in> set (dimensions self)")
  case False
  with Database_loaded [OF assms] show ?thesis by simp
next
  case True
  with Database_loaded [OF assms] obtain ty dm where
    td: "dimensionTypeAndDomain d (data self) = Inr (ty, dm)" and ty: "dimensionTypes self d = Some ty"
    by blast
  from Database_loaded [OF assms] have rows: "\<forall>p \<in> set (data self). \<forall>n. p d \<noteq> Num n"
    by (auto simp: rowObject_not_Num)
  have "ty \<noteq> INTEGER"
  proof (cases "data self")
    case Nil
    with td show ?thesis by (simp add: dimensionTypeAndDomain_def)
  next
    case (Cons p0 ps)
    let ?val = "firstTruthy d (data self) (p0 d)"
    from rows Cons have "\<forall>n. p0 d \<noteq> Num n" by simp
    with rows firstTruthy_cases [of d "data self" "p0 d"] have "\<forall>n. ?val \<noteq> Num n"
      by metis
    then have "\<not> Number_isInteger ?val" by (rule Number_isInteger_only_numbers)
    with td Cons show ?thesis
      by (auto simp: dimensionTypeAndDomain_def Let_def split: if_splits)
  qed
  with ty show ?thesis by simp
qed

text \<open>
  In this model of objects loading throws nothing: it reports an error of
  \<^verbatim>\<open>checkErrors\<close> or returns a database. (In the code a header that names an inherited
  property such as \<^verbatim>\<open>__proto__\<close> makes the constructor throw.)
  The type of a dimension as the constructor sets it: \<^verbatim>\<open>FLOAT\<close> when the first truthy value
  converts to a number or spells \<^verbatim>\<open>NaN\<close>, otherwise \<^verbatim>\<open>STRING\<close>.
\<close>

lemma setTypesAndDomains_returns:
  assumes "data self \<noteq> []"
  shows "\<exists>self'. setTypesAndDomains ds self = Inr self'"
  using assms
proof (induction ds arbitrary: self)
  case Nil
  then show ?case by simp
next
  case (Cons a ds)
  from Cons.prems have "\<exists>x. dimensionTypeAndDomain a (data self) = Inr x"
    by (cases "data self") (simp_all add: dimensionTypeAndDomain_def Let_def)
  then obtain ty dm where td: "dimensionTypeAndDomain a (data self) = Inr (ty, dm)"
    by (metis surj_pair)
  let ?s1 = "self\<lparr>dimensionTypes := (dimensionTypes self)(a \<mapsto> ty),
                   dimensionDomains := (dimensionDomains self)(a \<mapsto> dm)\<rparr>"
  from Cons.prems have "data ?s1 \<noteq> []" by simp
  from Cons.IH [OF this] td show ?case by simp
qed

lemma Database_never_throws: "Database data_arr \<noteq> Inl (Thrown e)"
proof (cases "checkErrors data_arr")
  case (Some msg)
  then show ?thesis by (simp add: Database_def)
next
  case None
  then have "2 \<le> length data_arr"
    by (simp add: checkErrors_def split: if_splits)
  then have "map (rowObject (map propertyName (data_arr ! 0))) (drop 1 data_arr) \<noteq> []"
    by simp
  then have "\<exists>self'. setTypesAndDomains (map propertyName (data_arr ! 0))
       \<lparr>data = map (rowObject (map propertyName (data_arr ! 0))) (drop 1 data_arr),
          dimensions = map propertyName (data_arr ! 0),
          dimensionTypes = Map.empty, dimensionDomains = Map.empty\<rparr> = Inr self'"
    by (intro setTypesAndDomains_returns) simp
  with None show ?thesis by (auto simp: Database_def Let_def)
qed

lemma Database_type_rule:
  assumes "Database data_arr = Inr self" and "d \<in> set (dimensions self)"
    and "data self = p0 # ps"
  shows "dimensionTypes self d =
           Some (if truthy (firstTruthy d (data self) (p0 d))
                    \<and> (\<not> isNaN (firstTruthy d (data self) (p0 d))
                         \<or> isNaNText (firstTruthy d (data self) (p0 d)))
                 then FLOAT else STRING)"
proof -
  from Database_loaded [OF assms(1)] assms(2) obtain ty dm where
    td: "dimensionTypeAndDomain d (data self) = Inr (ty, dm)"
    and ty: "dimensionTypes self d = Some ty"
    by blast
  from Database_never_INTEGER [OF assms(1), of d] ty have "ty \<noteq> INTEGER" by simp
  with td assms(3) ty show ?thesis
    by (auto simp: dimensionTypeAndDomain_def Let_def split: if_splits)
qed

text \<open>
  C3, on the code: loading the text \<^verbatim>\<open>a,b\n1,2\n3,4\n\<close> gives the dimensions \<open>a\<close> and
  \<open>b\<close> with the domains \<open>[1,3]\<close> and \<open>[2,4]\<close>, both typed \<^verbatim>\<open>FLOAT\<close>, where C3 has them
  typed Integer. The cells of a parsed file are strings, on which \<^verbatim>\<open>Number.isInteger\<close> is
  false, so no dimension is ever typed \<^verbatim>\<open>INTEGER\<close> (\<open>Database_never_INTEGER\<close>).
\<close>

theorem integer_columns_are_typed_FLOAT:
  "\<exists>self. DatabaseFromText example_text = Some (Inr self)
      \<and> dimensions self = [''a'', ''b'']
      \<and> dimensionTypes self ''a'' = Some FLOAT \<and> dimensionTypes self ''b'' = Some FLOAT
      \<and> dimensionDomains self ''a'' = Some [Num (Fin 1), Num (Fin 3)]
      \<and> dimensionDomains self ''b'' = Some [Num (Fin 2), Num (Fin 4)]"
proof -
  have "DatabaseFromText example_text = Some (Inr example_db)"
    by (simp add: DatabaseFromText_def parseCSV_example_text Database_example)
  then show ?thesis by (simp add: example_db_def)
qed

text \<open>
  C10. In a loaded database, a dimension whose value is missing in every row has the type
  \<^verbatim>\<open>STRING\<close>, and its domain is the list of its values row by row.
\<close>

theorem all_missing_column_is_STRING:
  assumes "Database data_arr = Inr self"
    and "d \<in> set (dimensions self)"
    and "\<forall>p \<in> set (data self). p d = Undefined"
  shows "dimensionTypes self d = Some STRING
       \<and> dimensionDomains self d = Some (map (\<lambda>p. p d) (data self))"
proof -
  from Database_loaded [OF assms(1)] assms(2) obtain ty dm where
    td: "dimensionTypeAndDomain d (data self) = Inr (ty, dm)"
    and ty: "dimensionTypes self d = Some ty" and dm: "dimensionDomains self d = Some dm"
    by blast
  have "ty = STRING \<and> dm = map (\<lambda>p. p d) (data self)"
  proof (cases "data self")
    case Nil
    with td show ?thesis by (simp add: dimensionTypeAndDomain_def)
  next
    case (Cons p0 ps)
    from assms(3) have "\<forall>p \<in> set (data self). \<not> truthy (p d)" by auto
    then have "firstTruthy d (data self) (p0 d) = p0 d" by (rule firstTruthy_none)
    moreover from assms(3) Cons have "p0 d = Undefined" by simp
    ultimately show ?thesis using td Cons
      by (simp add: dimensionTypeAndDomain_def Let_def)
  qed
  with ty dm show ?thesis by simp
qed

theorem all_missing_column_is_STRING_witness:
  "\<exists>self. Database example_missing = Inr self \<and> ''b'' \<in> set (dimensions self)
      \<and> list_all (\<lambda>p. p ''b'' = Undefined) (data self)
      \<and> dimensionTypes self ''b'' = Some STRING
      \<and> dimensionDomains self ''b'' = Some [Undefined, Undefined]"
proof -
  obtain self where db: "Database example_missing = Inr self"
    by (simp add: example_missing_def database_eval number_eval upt_conv_Cons)
  from Database_loaded [OF db] have
    dims: "dimensions self = [''a'', ''b'']"
    and rows: "data self = [emptyObject(''a'' := Str ''1'', ''b'' := Undefined),
                            emptyObject(''a'' := Str ''3'', ''b'' := Undefined)]"
    by (simp_all add: example_missing_def rowObject_def upt_conv_Cons)
  have b: "''b'' \<in> set (dimensions self)" by (simp add: dims)
  have missing: "\<forall>p \<in> set (data self). p ''b'' = Undefined" by (simp add: rows)
  from all_missing_column_is_STRING [OF db b missing] rows db b
  show ?thesis by auto
qed

section \<open>Properties of the similarity query\<close>

lemma rowDistance_returns:
  assumes "\<forall>d \<in> set ds. dimensionDomains self d \<noteq> None"
  shows "\<exists>x. rowDistance self query row ds acc = Inr x"
  using assms
proof (induction ds arbitrary: acc)
  case Nil
  then show ?case by simp
next
  case (Cons d ds)
  from Cons.prems obtain extent where "dimensionDomains self d = Some extent" by auto
  then have "\<exists>t. dimensionDistance self query row d = Inr t"
    by (simp add: dimensionDistance_def)
  then obtain t where "dimensionDistance self query row d = Inr t" ..
  with Cons show ?case by simp
qed

lemma similarLoop_filter:
  assumes "\<forall>row \<in> set rows. rowDistance self query row (dimensions self) (Fin 0) = Inr (f row)"
  shows "similarLoop self query threshold rows i acc =
           Inr (acc @ [k \<leftarrow> [i..<i + length rows]. num_le (f (rows ! (k - i))) threshold])"
  using assms
proof (induction rows arbitrary: i acc)
  case Nil
  then show ?case by simp
next
  case (Cons r rows)
  have shift: "[k \<leftarrow> [Suc i..<Suc i + length rows]. num_le (f ((r # rows) ! (k - i))) threshold]
             = [k \<leftarrow> [Suc i..<Suc i + length rows]. num_le (f (rows ! (k - Suc i))) threshold]"
    by (rule filter_cong) (auto simp: nth_Cons')
  have "i < i + length (r # rows)" by simp
  then have "[i..<i + length (r # rows)] = i # [Suc i..<i + length (r # rows)]"
    by (rule upt_conv_Cons)
  then have upt: "[i..<i + length (r # rows)] = i # [Suc i..<Suc i + length rows]"
    by simp
  have step: "[k \<leftarrow> [i..<i + length (r # rows)]. num_le (f ((r # rows) ! (k - i))) threshold]
      = (if num_le (f r) threshold then [i] else [])
        @ [k \<leftarrow> [Suc i..<Suc i + length rows]. num_le (f (rows ! (k - Suc i))) threshold]"
    unfolding upt using shift by simp
  from Cons.prems have r: "rowDistance self query r (dimensions self) (Fin 0) = Inr (f r)"
    and rows: "\<forall>row \<in> set rows. rowDistance self query row (dimensions self) (Fin 0) = Inr (f row)"
    by simp_all
  show ?case
    unfolding step by (simp add: r Cons.IH [OF rows])
qed

text \<open>
  On a loaded database \<^verbatim>\<open>getSimilar\<close> throws nothing and returns, in increasing order, the
  indices of the rows whose summed distance is at most the threshold.
\<close>

lemma getSimilar_loaded:
  assumes "Database data_arr = Inr self"
  shows "\<exists>f. (\<forall>row. rowDistance self query row (dimensions self) (Fin 0) = Inr (f row))
           \<and> getSimilar self query threshold
               = Inr [k \<leftarrow> [0..<length (data self)]. num_le (f (data self ! k)) threshold]"
proof -
  from Database_loaded [OF assms] have
    "\<forall>d \<in> set (dimensions self). dimensionDomains self d \<noteq> None" by auto
  then have "\<forall>row. \<exists>x. rowDistance self query row (dimensions self) (Fin 0) = Inr x"
    by (intro allI rowDistance_returns)
  then obtain f where f: "\<forall>row. rowDistance self query row (dimensions self) (Fin 0) = Inr (f row)"
    by metis
  then have "\<forall>row \<in> set (data self). rowDistance self query row (dimensions self) (Fin 0) = Inr (f row)"
    by simp
  from similarLoop_filter [OF this, of threshold 0 "[]"]
  have "getSimilar self query threshold
               = Inr [k \<leftarrow> [0..<length (data self)]. num_le (f (data self ! k)) threshold]"
    by (simp add: getSimilar_def)
  with f show ?thesis by blast
qed

lemma DatabaseFromText_example_gap:
  "DatabaseFromText example_gap_text = Some (Inr example_gap_db)"
proof -
  have "parseCSV example_gap_text =
          Some (Inr [[Some ''a'', Some ''b''], [Some ''1'', Some ''2''], [None, Some ''4'']])"
    by (simp add: example_gap_text_def parser_eval)
  moreover have "Database [[Some ''a'', Some ''b''], [Some ''1'', Some ''2''], [None, Some ''4'']]
                   = Inr example_gap_db"
    by (simp add: database_eval number_eval example_gap_db_def upt_conv_Cons)
  ultimately show ?thesis by (simp add: DatabaseFromText_def)
qed

lemma dimensionDistance_NaN_query_missing_row:
  assumes "\<not> isStringDimension self d" and "query d = Num NaN" and "row d = Undefined"
  shows "dimensionDistance self query row d = Inr (Fin 0)"
  using assms by (simp add: dimensionDistance_def isNaN_def)

lemma num_add_NaN_right [simp]: "num_add a NaN = NaN"
  by (cases a) simp_all

lemma num_div_NaN_right [simp]: "num_div a NaN = NaN"
  by (cases a) simp_all

lemma dimensionDistance_number_query_NaN_row:
  assumes "\<not> isStringDimension self d" and "query d = Num (Fin q)" and "row d = Str s"
    and "StringToNumber s = NaN" and "dimensionDomains self d = Some extent"
    and "\<not> num_eq (js_minus (elemAt extent 1) (elemAt extent 0)) (Fin 0)"
  shows "dimensionDistance self query row d = Inr NaN"
  using assms
  by (simp add: dimensionDistance_def isNaN_def getNormalizedValue_def js_minus_def num_sub_def num_eq_def)

text \<open>
  C2, on the code: in the file loaded here row 1 has no value for the numeric dimension
  \<open>a\<close>, and the query \<^verbatim>\<open>{a: NaN}\<close> with threshold 0 returns that row. C2 puts a row at
  distance 1 when only the value of the query is \<^verbatim>\<open>NaN\<close>, as the comment in
  \<^verbatim>\<open>getSimilar\<close> does; the code tests the row with \<^verbatim>\<open>isNaN\<close>, which is true of a
  missing value too.
\<close>

theorem getSimilar_NaN_query_matches_missing_value:
  "\<exists>self. DatabaseFromText example_gap_text = Some (Inr self)
      \<and> (data self ! 1) ''a'' = Undefined
      \<and> getSimilar self (emptyObject(''a'' := Num NaN)) (Fin 0) = Inr [1]"
proof -
  have "(data example_gap_db ! 1) ''a'' = Undefined"
    by (simp add: example_gap_db_def)
  moreover have "getSimilar example_gap_db (emptyObject(''a'' := Num NaN)) (Fin 0) = Inr [1]"
    by (simp add: similar_eval example_gap_db_def emptyObject_def number_eval)
  ultimately show ?thesis using DatabaseFromText_example_gap by blast
qed

section \<open>Properties of the selection\<close>

lemma arraysEqual_iff: "arraysEqual as bs = (as = bs)"
  by (induction as bs rule: arraysEqual.induct) auto

lemma selection_updateSelection:
  "selection (updateSelection force self) = newSelectionOf self"
  by (simp add: updateSelection_def Let_def arraysEqual_iff)

lemma selectionLoop_filter:
  "selectionLoop self rows i acc =
     acc @ [k \<leftarrow> [i..<i + length rows]. rowSelected self (rows ! (k - i)) (shownDimensions self)]"
proof (induction rows arbitrary: i acc)
  case Nil
  then show ?case by simp
next
  case (Cons r rows)
  have shift: "[k \<leftarrow> [Suc i..<Suc i + length rows].
                  rowSelected self ((r # rows) ! (k - i)) (shownDimensions self)]
             = [k \<leftarrow> [Suc i..<Suc i + length rows].
                  rowSelected self (rows ! (k - Suc i)) (shownDimensions self)]"
    by (rule filter_cong) (auto simp: nth_Cons')
  have "i < i + length (r # rows)" by simp
  then have "[i..<i + length (r # rows)] = i # [Suc i..<i + length (r # rows)]"
    by (rule upt_conv_Cons)
  then have "[i..<i + length (r # rows)] = i # [Suc i..<Suc i + length rows]"
    by simp
  then show ?case
    using shift by (simp add: Cons.IH)
qed

lemma newSelectionOf_filter:
  "newSelectionOf self =
     [k \<leftarrow> [0..<length (data (db self))].
        rowSelected self (data (db self) ! k) (shownDimensions self)]"
  by (simp add: newSelectionOf_def selectionLoop_filter)

lemma rowSelected_iff:
  "rowSelected self d ps \<longleftrightarrow>
     (\<forall>p \<in> set ps. \<forall>lo hi. brushExtents self p = Some (Extent lo hi) \<longrightarrow>
        num_le lo (getYPosition self p d) \<and> num_le (getYPosition self p d) hi)"
  by (induction ps) (auto split: option.splits brush_selection.splits)

text \<open>
  C1. Whatever the rows, the brush extents and the scales are, the recomputed selection is
  the list of exactly those row indices, in increasing order, for which every shown
  dimension with an extent has the row's position \<^verbatim>\<open>getYPosition\<close> between the two ends of
  the extent, ends included. With no extent on any shown dimension, every row index is
  selected.
\<close>

theorem updateSelection_exact:
  "selection (updateSelection force self) =
     [i \<leftarrow> [0..<length (data (db self))].
        \<forall>p \<in> set (shownDimensions self). \<forall>lo hi.
          brushExtents self p = Some (Extent lo hi) \<longrightarrow>
            num_le lo (getYPosition self p (data (db self) ! i)) \<and>
            num_le (getYPosition self p (data (db self) ! i)) hi]
   \<and> ((\<forall>p \<in> set (shownDimensions self). \<forall>lo hi. brushExtents self p \<noteq> Some (Extent lo hi)) \<longrightarrow>
        selection (updateSelection force self) = [0..<length (data (db self))])"
proof -
  have eq: "selection (updateSelection force self) =
     [i \<leftarrow> [0..<length (data (db self))].
        \<forall>p \<in> set (shownDimensions self). \<forall>lo hi.
          brushExtents self p = Some (Extent lo hi) \<longrightarrow>
            num_le lo (getYPosition self p (data (db self) ! i)) \<and>
            num_le (getYPosition self p (data (db self) ! i)) hi]"
    by (simp add: selection_updateSelection newSelectionOf_filter rowSelected_iff)
  show ?thesis
  proof (intro conjI impI)
    show "selection (updateSelection force self) =
     [i \<leftarrow> [0..<length (data (db self))].
        \<forall>p \<in> set (shownDimensions self). \<forall>lo hi.
          brushExtents self p = Some (Extent lo hi) \<longrightarrow>
            num_le lo (getYPosition self p (data (db self) ! i)) \<and>
            num_le (getYPosition self p (data (db self) ! i)) hi]" by (rule eq)
  next
    assume none: "\<forall>p \<in> set (shownDimensions self). \<forall>lo hi. brushExtents self p \<noteq> Some (Extent lo hi)"
    then have "\<And>d. rowSelected self d (shownDimensions self)"
      by (simp add: rowSelected_iff)
    then show "selection (updateSelection force self) = [0..<length (data (db self))]"
      by (simp add: selection_updateSelection newSelectionOf_filter)
  qed
qed

lemma length_filter_mono:
  "(\<And>x. x \<in> set xs \<Longrightarrow> P x \<Longrightarrow> Q x) \<Longrightarrow> length (filter P xs) \<le> length (filter Q xs)"
  by (induction xs) auto

lemma updateSelection_fields [simp]:
  "brushExtents (updateSelection force s) = brushExtents s"
  "db (updateSelection force s) = db s"
  "y (updateSelection force s) = y s"
  "yRange (updateSelection force s) = yRange s"
  "internalHeight (updateSelection force s) = internalHeight s"
  "shownDimensions (updateSelection force s) = shownDimensions s"
  "dontUpdateSelectionOnBrush (updateSelection force s) = dontUpdateSelectionOnBrush s"
  by (simp_all add: updateSelection_def Let_def)

text \<open>
  C6. A recomputed selection holds row indices below the number of rows only. Giving an
  extent to one more dimension (one that had none, or \<^verbatim>\<open>null\<close>), with everything else as it
  was, and recomputing gives a subset of the selection before, so no longer a list.
\<close>

theorem selection_shrinks_with_more_brushes:
  assumes inactive: "brushExtents self d = None \<or> brushExtents self d = Some NullSelection"
  shows "(\<forall>i \<in> set (selection (updateSelection f1 self)). i < length (data (db self)))
       \<and> set (selection (updateSelection f2
               ((updateSelection f1 self)\<lparr>brushExtents := (brushExtents self)(d \<mapsto> Extent lo hi)\<rparr>)))
           \<subseteq> set (selection (updateSelection f1 self))
       \<and> length (selection (updateSelection f2
               ((updateSelection f1 self)\<lparr>brushExtents := (brushExtents self)(d \<mapsto> Extent lo hi)\<rparr>)))
           \<le> length (selection (updateSelection f1 self))"
proof -
  let ?s1 = "updateSelection f1 self"
  let ?s2 = "?s1\<lparr>brushExtents := (brushExtents self)(d \<mapsto> Extent lo hi)\<rparr>"
  have imp: "rowSelected ?s2 r (shownDimensions self) \<Longrightarrow> rowSelected self r (shownDimensions self)" for r
    using inactive by (auto simp: rowSelected_iff getYPosition_def split: if_splits)
  have sel1: "selection ?s1 = [k \<leftarrow> [0..<length (data (db self))].
        rowSelected self (data (db self) ! k) (shownDimensions self)]"
    by (simp add: selection_updateSelection newSelectionOf_filter)
  have sel2: "selection (updateSelection f2 ?s2) = [k \<leftarrow> [0..<length (data (db self))].
        rowSelected ?s2 (data (db self) ! k) (shownDimensions self)]"
    by (simp add: selection_updateSelection newSelectionOf_filter)
  have a: "\<forall>i \<in> set (selection ?s1). i < length (data (db self))"
    by (simp add: sel1)
  have b: "set (selection (updateSelection f2 ?s2)) \<subseteq> set (selection ?s1)"
    unfolding sel1 sel2 using imp by auto
  have c: "length (selection (updateSelection f2 ?s2)) \<le> length (selection ?s1)"
    unfolding sel1 sel2 by (rule length_filter_mono) (rule imp)
  from a b c show ?thesis by blast
qed

theorem updateSelection_exact_witness:
  "selection (updateSelection False example_stored) = [1]
   \<and> selection (updateSelection True example_pcoord) = [0, 1]"
  using updateSelection_exact [of False example_stored]
        updateSelection_exact [of True example_pcoord]
  by (simp add: example_eval number_eval upt_conv_Cons)

theorem selection_shrinks_with_more_brushes_witness:
  "brushExtents example_pcoord ''a'' = None
   \<and> set (selection (updateSelection False
            ((updateSelection False example_pcoord)
               \<lparr>brushExtents := (brushExtents example_pcoord)(''a'' \<mapsto> Extent (Fin (- 5)) (Fin 50))\<rparr>)))
       \<subseteq> set (selection (updateSelection False example_pcoord))
   \<and> selection (updateSelection False
            ((updateSelection False example_pcoord)
               \<lparr>brushExtents := (brushExtents example_pcoord)(''a'' \<mapsto> Extent (Fin (- 5)) (Fin 50))\<rparr>)) = [1]"
proof -
  have h: "brushExtents example_pcoord ''a'' = None \<or> brushExtents example_pcoord ''a'' = Some NullSelection"
    by (simp add: example_pcoord_def)
  have sel: "selection (updateSelection False
            ((updateSelection False example_pcoord)
               \<lparr>brushExtents := (brushExtents example_pcoord)(''a'' \<mapsto> Extent (Fin (- 5)) (Fin 50))\<rparr>)) = [1]"
    by (simp add: selection_updateSelection newSelectionOf_filter example_eval number_eval upt_conv_Cons)
  from selection_shrinks_with_more_brushes
         [where self = example_pcoord and d = "''a''" and ?f1.0 = False and ?f2.0 = False
            and lo = "Fin (- 5)" and hi = "Fin 50", OF h] sel
  show ?thesis by (simp add: example_pcoord_def)
qed

text \<open>The brush event takes the example component to \<open>example_brushed\<close>.\<close>

lemma example_brushed_reached:
  "axisBrush ''a'' (Some (Extent (Fin (- 5)) (Fin 50))) example_pcoord = example_brushed"
proof -
  have ns: "newSelectionOf example_stored = [1]"
    by (simp add: newSelectionOf_filter example_eval number_eval upt_conv_Cons)
  have old: "selection example_stored = [0, 1]" "dispatched example_stored = []"
    by (simp_all add: example_stored_def example_pcoord_def)
  have "updateSelection False example_stored = example_brushed"
    by (simp add: updateSelection_def Let_def ns old example_brushed_def)
  moreover have "axisBrush ''a'' (Some (Extent (Fin (- 5)) (Fin 50))) example_pcoord
                   = updateSelection False example_stored"
    by (simp add: axisBrush_def Let_def num_eq_def example_stored_def) (simp add: example_pcoord_def)
  ultimately show ?thesis by simp
qed

lemma rowSelected_removeAll:
  assumes "\<forall>lo hi. brushExtents s d \<noteq> Some (Extent lo hi)"
  shows "rowSelected s row ps = rowSelected s row (removeAll d ps)"
  using assms by (induction ps) (auto split: option.splits brush_selection.splits)

text \<open>
  C8. A brush event whose selection has equal ends (\<^verbatim>\<open>lo === hi\<close>) leaves no entry for the
  dimension in \<^verbatim>\<open>brushExtents\<close>: the handler ends in the state it reaches when called by
  hand after the entry was removed, and in that state the dimension plays no part in
  whether a row is selected. The handler has no failing branch.
\<close>

theorem axisBrush_degenerate_extent:
  assumes "num_eq lo hi"
  shows "brushExtents (axisBrush d (Some (Extent lo hi)) self) d = None
       \<and> axisBrush d (Some (Extent lo hi)) self
           = axisBrush d None (self\<lparr>brushExtents := (brushExtents self)(d := None)\<rparr>)
       \<and> (\<forall>row ps. rowSelected (axisBrush d (Some (Extent lo hi)) self) row ps
                     = rowSelected (axisBrush d (Some (Extent lo hi)) self) row (removeAll d ps))"
proof -
  let ?cleared = "self\<lparr>brushExtents := (brushExtents self)(d := None)\<rparr>"
  have eq: "axisBrush d (Some (Extent lo hi)) self = axisBrush d None ?cleared"
    using assms by (simp add: axisBrush_def Let_def)
  have none: "brushExtents (axisBrush d None ?cleared) d = None"
    by (simp add: axisBrush_def Let_def)
  have "\<forall>lo' hi'. brushExtents (axisBrush d None ?cleared) d \<noteq> Some (Extent lo' hi')"
    by (simp add: none)
  then have "rowSelected (axisBrush d None ?cleared) row ps
               = rowSelected (axisBrush d None ?cleared) row (removeAll d ps)" for row ps
    by (rule rowSelected_removeAll)
  with eq none show ?thesis by simp
qed

theorem axisBrush_degenerate_extent_witness:
  "num_eq (Fin 40) (Fin 40)
   \<and> brushExtents (axisBrush ''a'' (Some (Extent (Fin 40) (Fin 40))) example_brushed) ''a'' = None
   \<and> selection (axisBrush ''a'' (Some (Extent (Fin 40) (Fin 40))) example_brushed) = [0, 1]"
proof -
  have h: "num_eq (Fin 40) (Fin 40)" by (simp add: num_eq_def)
  have sel: "selection (axisBrush ''a'' None
               (example_brushed\<lparr>brushExtents := (brushExtents example_brushed)(''a'' := None)\<rparr>)) = [0, 1]"
    by (simp add: axisBrush_def selection_updateSelection newSelectionOf_filter example_eval
          number_eval upt_conv_Cons)
  note inst = axisBrush_degenerate_extent [OF h, of "''a''" example_brushed]
  from inst have a: "brushExtents (axisBrush ''a'' (Some (Extent (Fin 40) (Fin 40))) example_brushed) ''a'' = None"
    by (rule conjunct1)
  from inst have b: "axisBrush ''a'' (Some (Extent (Fin 40) (Fin 40))) example_brushed
      = axisBrush ''a'' None
          (example_brushed\<lparr>brushExtents := (brushExtents example_brushed)(''a'' := None)\<rparr>)"
    by (rule conjunct1 [OF conjunct2])
  from sel have c: "selection (axisBrush ''a'' (Some (Extent (Fin 40) (Fin 40))) example_brushed) = [0, 1]"
    by (simp only: b)
  from h a c show ?thesis by (intro conjI)
qed

section \<open>Properties of resizing\<close>

lemma axisBrush_suppressed:
  assumes "dontUpdateSelectionOnBrush s"
  shows "axisBrush d (Some sel) s =
           s\<lparr>brushExtents := (case sel of
                                 Extent lo hi \<Rightarrow> if num_eq lo hi then (brushExtents s)(d := None)
                                                else (brushExtents s)(d \<mapsto> sel)
                               | NullSelection \<Rightarrow> (brushExtents s)(d \<mapsto> sel))\<rparr>"
  using assms by (cases sel) (simp_all add: axisBrush_def Let_def)

lemma brushMove_suppressed:
  assumes "dontUpdateSelectionOnBrush s"
  shows "brushMove d sel s = s\<lparr>brushExtents := (brushExtents s)(d \<mapsto> brushState sel)\<rparr>"
proof -
  let ?b = "brushState sel"
  have nd: "case ?b of Extent lo hi \<Rightarrow> \<not> num_eq lo hi | NullSelection \<Rightarrow> True"
    by (cases sel) simp_all
  have one: "axisBrush d (Some ?b) t = t\<lparr>brushExtents := (brushExtents t)(d \<mapsto> ?b)\<rparr>"
    if "dontUpdateSelectionOnBrush t" for t
    using nd that by (simp add: axisBrush_suppressed split: brush_selection.splits)
  show ?thesis
    using assms by (simp add: brushMove_def one)
qed

lemma fold_brushMove:
  assumes "dontUpdateSelectionOnBrush s"
  shows "fold (\<lambda>d s. brushMove d (rescaledExtent old s d) s) ds s
           = s\<lparr>brushExtents := brushExtents (fold (\<lambda>d s. brushMove d (rescaledExtent old s d) s) ds s)\<rparr>
         \<and> (\<forall>d. d \<notin> set ds \<longrightarrow>
              brushExtents (fold (\<lambda>d s. brushMove d (rescaledExtent old s d) s) ds s) d = brushExtents s d)
         \<and> (distinct ds \<longrightarrow> (\<forall>d \<in> set ds.
              brushExtents (fold (\<lambda>d s. brushMove d (rescaledExtent old s d) s) ds s) d
                = Some (brushState (rescaledExtent old s d))))"
  using assms
proof (induction ds arbitrary: s)
  case Nil
  then show ?case by simp
next
  case (Cons a ds)
  let ?f = "\<lambda>d s. brushMove d (rescaledExtent old s d) s"
  let ?s1 = "s\<lparr>brushExtents := (brushExtents s)(a \<mapsto> brushState (rescaledExtent old s a))\<rparr>"
  have step: "?f a s = ?s1"
    using Cons.prems by (simp add: brushMove_suppressed)
  have flag: "dontUpdateSelectionOnBrush ?s1" using Cons.prems by simp
  note IH = Cons.IH [OF flag]
  have resc: "rescaledExtent old ?s1 d = rescaledExtent old s d" if "d \<noteq> a" for d
    using that by (simp add: rescaledExtent_def split: option.splits brush_selection.splits)
  have fold_eq: "fold ?f (a # ds) s = fold ?f ds ?s1"
    by (simp add: step)
  from IH have r1: "fold ?f ds ?s1 = ?s1\<lparr>brushExtents := brushExtents (fold ?f ds ?s1)\<rparr>"
    by (rule conjunct1)
  from IH have r2: "\<forall>d. d \<notin> set ds \<longrightarrow> brushExtents (fold ?f ds ?s1) d = brushExtents ?s1 d"
    by (rule conjunct1 [OF conjunct2])
  from IH have r3: "distinct ds \<longrightarrow> (\<forall>d \<in> set ds.
              brushExtents (fold ?f ds ?s1) d = Some (brushState (rescaledExtent old ?s1 d)))"
    by (rule conjunct2 [OF conjunct2])
  have c1: "fold ?f (a # ds) s = s\<lparr>brushExtents := brushExtents (fold ?f (a # ds) s)\<rparr>"
    unfolding fold_eq by (subst r1) simp
  have c2: "\<forall>d. d \<notin> set (a # ds) \<longrightarrow> brushExtents (fold ?f (a # ds) s) d = brushExtents s d"
    unfolding fold_eq using r2 by simp
  have c3: "distinct (a # ds) \<longrightarrow> (\<forall>d \<in> set (a # ds).
              brushExtents (fold ?f (a # ds) s) d = Some (brushState (rescaledExtent old s d)))"
  proof (intro impI ballI)
    fix d assume dist: "distinct (a # ds)" and d: "d \<in> set (a # ds)"
    show "brushExtents (fold ?f (a # ds) s) d = Some (brushState (rescaledExtent old s d))"
    proof (cases "d = a")
      case True
      with dist have "d \<notin> set ds" by simp
      with r2 have "brushExtents (fold ?f ds ?s1) d = brushExtents ?s1 d" by blast
      with True show ?thesis unfolding fold_eq by simp
    next
      case False
      with d have "d \<in> set ds" by simp
      with r3 dist have "brushExtents (fold ?f ds ?s1) d = Some (brushState (rescaledExtent old ?s1 d))"
        by simp
      with resc [OF False] show ?thesis unfolding fold_eq by simp
    qed
  qed
  from c1 c2 c3 show ?case by blast
qed

lemma updateSize_effect:
  "dispatched (updateSize h self) = dispatched self
   \<and> selection (updateSize h self) = selection self
   \<and> dontUpdateSelectionOnBrush (updateSize h self) = False
   \<and> internalHeight (updateSize h self) = num_sub (num_sub h (marginTop self)) (marginBottom self)
   \<and> db (updateSize h self) = db self
   \<and> shownDimensions (updateSize h self) = shownDimensions self
   \<and> (distinct (shownDimensions self) \<longrightarrow>
        (\<forall>d \<in> set (shownDimensions self).
           brushExtents (updateSize h self) d =
             Some (brushState (rescaledExtent (internalHeight self)
                     (self\<lparr>internalHeight :=
                             num_sub (num_sub h (marginTop self)) (marginBottom self)\<rparr>) d))))"
proof -
  define self1 where
    "self1 = self\<lparr>internalHeight := num_sub (num_sub h (marginTop self)) (marginBottom self)\<rparr>"
  define self2 where "self2 = self1\<lparr>NaNMargin := num_div (internalHeight self1) (Fin 11)\<rparr>"
  define self3 where "self3 = self2\<lparr>yRange :=
                    fold (\<lambda>d r. r(d := (if isStringDimension (db self2) d then internalHeight self2
                                        else num_sub (internalHeight self2) (NaNMargin self2))))
                      (shownDimensions self2) (yRange self2)\<rparr>"
  define self4 where "self4 = self3\<lparr>dontUpdateSelectionOnBrush := True\<rparr>"
  note self4_defs = self4_def self3_def self2_def self1_def
  let ?fold = "fold (\<lambda>d s. brushMove d (rescaledExtent (internalHeight self) s d) s)
                 (shownDimensions self4) self4"
  have dims: "shownDimensions self4 = shownDimensions self" by (simp add: self4_defs)
  have flag: "dontUpdateSelectionOnBrush self4" by (simp add: self4_def)
  have "updateSize h self = ?fold\<lparr>dontUpdateSelectionOnBrush := False\<rparr>"
    unfolding updateSize_def Let_def self4_defs by (rule refl)
  also have "\<dots> = self4\<lparr>brushExtents := brushExtents ?fold, dontUpdateSelectionOnBrush := False\<rparr>"
    by (subst fold_brushMove [OF flag, of "internalHeight self" "shownDimensions self4", THEN conjunct1]) simp
  finally have us: "updateSize h self = self4\<lparr>brushExtents := brushExtents ?fold,
                                       dontUpdateSelectionOnBrush := False\<rparr>" .
  have a: "dispatched (updateSize h self) = dispatched self" by (simp add: us) (simp add: self4_defs)
  have b: "selection (updateSize h self) = selection self" by (simp add: us) (simp add: self4_defs)
  have c: "dontUpdateSelectionOnBrush (updateSize h self) = False" by (simp add: us)
  have e: "internalHeight (updateSize h self) = num_sub (num_sub h (marginTop self)) (marginBottom self)"
    by (simp add: us) (simp add: self4_defs)
  have f: "db (updateSize h self) = db self" by (simp add: us) (simp add: self4_defs)
  have g: "shownDimensions (updateSize h self) = shownDimensions self" by (simp add: us dims)
  have resc: "rescaledExtent old self4 d = rescaledExtent old self1 d" for old d
    by (simp add: rescaledExtent_def self4_defs split: option.splits brush_selection.splits)
  have d: "brushExtents (updateSize h self) d =
             Some (brushState (rescaledExtent (internalHeight self) self1 d))"
    if dist: "distinct (shownDimensions self)" and d: "d \<in> set (shownDimensions self)" for d
  proof -
    from fold_brushMove [OF flag, of "internalHeight self" "shownDimensions self4", THEN conjunct2, THEN conjunct2]
      dist d dims
    have "brushExtents ?fold d = Some (brushState (rescaledExtent (internalHeight self) self4 d))"
      by simp
    then show ?thesis by (simp add: us resc)
  qed
  from a b c d e f g show ?thesis unfolding self1_def by blast
qed

lemma newSelectionOf_updateSelection:
  "newSelectionOf (updateSelection force s) = newSelectionOf s"
  by (simp add: newSelectionOf_filter rowSelected_iff getYPosition_def)

text \<open>
  C7, as the code has it. During \<^verbatim>\<open>updateSize\<close> the recomputation of the selection is
  switched off while the brushes are moved: no notification is dispatched and the
  selection stays as it was. With pairwise different shown dimensions, every extent is
  replaced by what d3 keeps of its two ends times the new height over the old one: that
  extent, or \<^verbatim>\<open>null\<close> when the two new ends coincide. At the end the recomputation is
  switched on again. Nothing is recomputed at that point.
\<close>

theorem updateSize_suppresses_recomputation:
  "dispatched (updateSize h self) = dispatched self
   \<and> selection (updateSize h self) = selection self
   \<and> dontUpdateSelectionOnBrush (updateSize h self) = False
   \<and> (distinct (shownDimensions self) \<longrightarrow>
        (\<forall>d \<in> set (shownDimensions self). \<forall>lo hi.
           brushExtents self d = Some (Extent lo hi) \<longrightarrow>
           brushExtents (updateSize h self) d =
             Some (brushState
               (Extent (num_mul (num_div lo (internalHeight self)) (internalHeight (updateSize h self)))
                       (num_mul (num_div hi (internalHeight self)) (internalHeight (updateSize h self)))))))"
proof -
  note eff = updateSize_effect [of h self]
  have "brushExtents (updateSize h self) d =
             Some (brushState
               (Extent (num_mul (num_div lo (internalHeight self)) (internalHeight (updateSize h self)))
                       (num_mul (num_div hi (internalHeight self)) (internalHeight (updateSize h self)))))"
    if dist: "distinct (shownDimensions self)" and d: "d \<in> set (shownDimensions self)"
      and ext: "brushExtents self d = Some (Extent lo hi)" for d lo hi
  proof -
    from eff dist d have "brushExtents (updateSize h self) d =
             Some (brushState (rescaledExtent (internalHeight self)
                     (self\<lparr>internalHeight :=
                             num_sub (num_sub h (marginTop self)) (marginBottom self)\<rparr>) d))"
      by blast
    moreover from eff have "internalHeight (updateSize h self)
        = num_sub (num_sub h (marginTop self)) (marginBottom self)" by blast
    ultimately show ?thesis using ext by (simp add: rescaledExtent_def)
  qed
  with eff show ?thesis by blast
qed

theorem updateSize_suppresses_recomputation_witness:
  "distinct (shownDimensions example_brushed)
   \<and> brushExtents example_brushed ''a'' = Some (Extent (Fin (- 5)) (Fin 50))
   \<and> dispatched (updateSize (Fin 240) example_brushed) = [SelectionChange [1]]
   \<and> selection (updateSize (Fin 240) example_brushed) = [1]
   \<and> dontUpdateSelectionOnBrush (updateSize (Fin 240) example_brushed) = False
   \<and> brushExtents (updateSize (Fin 240) example_brushed) ''a''
        = Some (Extent (Fin (- (100 / 11))) (Fin (1000 / 11)))
   \<and> brushExtents (updateSize (Fin 40) example_brushed) ''a'' = Some NullSelection"
proof -
  have dist: "distinct (shownDimensions example_brushed)"
    by (simp add: example_eval)
  have ext: "brushExtents example_brushed ''a'' = Some (Extent (Fin (- 5)) (Fin 50))"
    by (simp add: example_eval)
  have a: "''a'' \<in> set (shownDimensions example_brushed)" by (simp add: example_eval)
  have old: "internalHeight example_brushed = Fin 110" by (simp add: example_eval)
  have ih: "internalHeight (updateSize (Fin 240) example_brushed) = Fin 200"
    "internalHeight (updateSize (Fin 40) example_brushed) = Fin 0"
    using updateSize_effect [of "Fin 240" example_brushed]
          updateSize_effect [of "Fin 40" example_brushed]
    by (simp_all add: example_eval number_eval)
  note big = updateSize_suppresses_recomputation [of "Fin 240" example_brushed]
  note small = updateSize_suppresses_recomputation [of "Fin 40" example_brushed]
  from big dist a ext have
    "brushExtents (updateSize (Fin 240) example_brushed) ''a''
       = Some (brushState
               (Extent (num_mul (num_div (Fin (- 5)) (internalHeight example_brushed))
                          (internalHeight (updateSize (Fin 240) example_brushed)))
                       (num_mul (num_div (Fin 50) (internalHeight example_brushed))
                          (internalHeight (updateSize (Fin 240) example_brushed)))))"
    by blast
  then have e1: "brushExtents (updateSize (Fin 240) example_brushed) ''a''
        = Some (Extent (Fin (- (100 / 11))) (Fin (1000 / 11)))"
    by (simp add: ih old num_eq_def)
  from small dist a ext have
    "brushExtents (updateSize (Fin 40) example_brushed) ''a''
       = Some (brushState
               (Extent (num_mul (num_div (Fin (- 5)) (internalHeight example_brushed))
                          (internalHeight (updateSize (Fin 40) example_brushed)))
                       (num_mul (num_div (Fin 50) (internalHeight example_brushed))
                          (internalHeight (updateSize (Fin 40) example_brushed)))))"
    by blast
  then have e2: "brushExtents (updateSize (Fin 40) example_brushed) ''a'' = Some NullSelection"
    by (simp add: ih old num_eq_def)
  from big have e3: "dispatched (updateSize (Fin 240) example_brushed) = [SelectionChange [1]]"
    by (simp add: example_eval)
  from big have e4: "selection (updateSize (Fin 240) example_brushed) = [1]"
    by (simp add: example_eval)
  from big have e5: "dontUpdateSelectionOnBrush (updateSize (Fin 240) example_brushed) = False"
    by blast
  from dist ext e1 e2 e3 e4 e5 show ?thesis by blast
qed

text \<open>
  C7 with a recomputation at the end of the resize does not hold. Resizing the brushed
  example to the height 0 makes the two ends of its extent coincide, so the brush is
  dropped; the selection is still \<open>[1]\<close> and no further notification was dispatched, while
  a recomputation in the state reached would select both rows. That state is therefore not
  the result of any recomputation, forced or not. With one dimension shown on two axes its
  extent is rescaled twice, not in proportion to the new height.
\<close>

theorem updateSize_forces_no_recomputation:
  "selection (updateSize (Fin 40) example_brushed) = [1]
   \<and> newSelectionOf (updateSize (Fin 40) example_brushed) = [0, 1]
   \<and> dispatched (updateSize (Fin 40) example_brushed) = dispatched example_brushed
   \<and> \<not> (\<exists>force s. updateSize (Fin 40) example_brushed = updateSelection force s)
   \<and> brushExtents (updateSize (Fin 240) example_duplicate) ''a''
        = Some (Extent (Fin (- (2000 / 121))) (Fin (20000 / 121)))"
proof -
  let ?r = "updateSize (Fin 40) example_brushed"
  note eff = updateSize_effect [of "Fin 40" example_brushed]
  have dist: "distinct (shownDimensions example_brushed)" by (simp add: example_eval)
  from eff have sel: "selection ?r = [1]" by (simp add: example_eval)
  from eff have disp: "dispatched ?r = dispatched example_brushed" by blast
  from eff have rows: "data (db ?r) = data example_db" by (simp add: example_eval)
  from eff have dims: "shownDimensions ?r = [''a'', ''b'']" by (simp add: example_eval)
  from eff dist have "\<forall>d \<in> set (shownDimensions example_brushed).
      brushExtents ?r d =
        Some (brushState (rescaledExtent (internalHeight example_brushed)
                (example_brushed\<lparr>internalHeight :=
                   num_sub (num_sub (Fin 40) (marginTop example_brushed))
                     (marginBottom example_brushed)\<rparr>) d))"
    by blast
  then have none: "brushExtents ?r ''a'' = Some NullSelection" "brushExtents ?r ''b'' = Some NullSelection"
    by (simp_all add: example_eval rescaledExtent_def num_sub_def num_eq_def)
  have all: "rowSelected ?r row (shownDimensions ?r)" for row
    by (simp add: dims none)
  have new: "newSelectionOf ?r = [0, 1]"
    by (simp add: newSelectionOf_filter all rows example_db_def upt_conv_Cons)
  have no: "?r \<noteq> updateSelection force s" for force s
  proof
    assume eq: "?r = updateSelection force s"
    then have "selection ?r = newSelectionOf s" by (simp add: selection_updateSelection)
    moreover from eq have "newSelectionOf ?r = newSelectionOf s"
      by (simp add: newSelectionOf_updateSelection)
    ultimately show False using sel new by simp
  qed
  have dup: "brushExtents (updateSize (Fin 240) example_duplicate) ''a''
        = Some (Extent (Fin (- (2000 / 121))) (Fin (20000 / 121)))"
    by (simp add: updateSize_def Let_def brushMove_suppressed rescaledExtent_def example_eval
          num_sub_def num_eq_def)
  from sel new disp no dup show ?thesis by blast
qed

section \<open>Properties of the pick-index codec\<close>

lemma b65536: "(n::int) div 256 div 256 = n div 65536"
  by (simp add: div_mult2_eq [symmetric])

lemma indexToColor_formula:
  assumes "i \<le> 256*256*256"
  shows "indexToColor i =
           RGB (i + 1 - ((i + 1) div 65536) * 65536
                  - ((i + 1 - ((i + 1) div 65536) * 65536) div 256) * 256)
               ((i + 1 - ((i + 1) div 65536) * 65536) div 256)
               ((i + 1) div 65536)"
  using assms by (simp add: indexToColor_def Let_def b65536)

lemma indexToColor_channels:
  assumes "-1 \<le> i" and "i \<le> 256^3 - 2"
  shows "\<exists>r g b. indexToColor i = RGB r g b \<and> 0 \<le> r \<and> r \<le> 255 \<and> 0 \<le> g \<and> g \<le> 255
           \<and> 0 \<le> b \<and> b \<le> 255"
proof -
  define n where "n = i + 1"
  define b where "b = n div 65536"
  define m where "m = n - b * 65536"
  have n: "0 \<le> n" "n < 16777216" using assms by (simp_all add: n_def)
  have m_eq: "m = n mod 65536" by (simp add: m_def b_def minus_div_mult_eq_mod)
  have b0: "0 \<le> b" using n by (simp add: b_def)
  have b1: "b \<le> 255" using n by (simp add: b_def)
  have m0: "0 \<le> m" "m < 65536" by (simp_all add: m_eq)
  have g0: "0 \<le> m div 256" "m div 256 \<le> 255" using m0 by simp_all
  have r_eq: "m - (m div 256) * 256 = m mod 256" by (simp add: minus_div_mult_eq_mod)
  have r0: "0 \<le> m mod 256" "m mod 256 \<le> 255" by simp_all
  have "i \<le> 256*256*256" using assms by simp
  then have "indexToColor i = RGB (m - (m div 256) * 256) (m div 256) b"
    unfolding m_def b_def n_def by (rule indexToColor_formula)
  then have "indexToColor i = RGB (m mod 256) (m div 256) b"
    by (simp only: r_eq)
  then show ?thesis using b0 b1 g0 r0 by blast
qed

lemma indexToColor_saturates:
  "256*256*256 < i \<Longrightarrow> indexToColor i = RGB 255 255 255"
  by (simp add: indexToColor_def)

text \<open>
  C4. For every integer \<open>i\<close> from \<open>-1\<close> to \<open>256^3 - 2\<close>, decoding the colour that encodes \<open>i\<close>
  gives \<open>i\<close> back: with \<open>n = i + 1\<close>, \<open>b = n div 65536\<close>, \<open>g = (n - b * 65536) div 256\<close> and
  \<open>r = n - b * 65536 - g * 256\<close>, the encoder returns \<open>rgb(r,g,b)\<close> and
  \<open>r + g * 256 + b * 65536 - 1 = i\<close>.
\<close>

theorem colorToIndex_indexToColor:
  assumes "-1 \<le> i" and "i \<le> 256^3 - 2"
  shows "indexToColor i =
           RGB (i + 1 - ((i + 1) div 65536) * 65536
                  - ((i + 1 - ((i + 1) div 65536) * 65536) div 256) * 256)
               ((i + 1 - ((i + 1) div 65536) * 65536) div 256)
               ((i + 1) div 65536)
         \<and> colorToIndex (indexToColor i) = i"
proof -
  from assms have le: "i \<le> 256*256*256" by simp
  have "colorToIndex (indexToColor i) = i"
    by (simp add: indexToColor_formula [OF le])
  with indexToColor_formula [OF le] show ?thesis by simp
qed

theorem colorToIndex_indexToColor_witness:
  "(-1::int) \<le> 70000 \<and> (70000::int) \<le> 256^3 - 2
   \<and> indexToColor 70000 = RGB 113 17 1 \<and> colorToIndex (indexToColor 70000) = 70000"
  using colorToIndex_indexToColor [of 70000] by simp

text \<open>
  C5, on the code: the index \<open>256^3 - 1\<close>, which is above \<open>256^3 - 2\<close>, is not encoded as
  white. The guard of \<^verbatim>\<open>indexToColor\<close> compares with \<open>256^3\<close>, so the indices \<open>256^3 - 1\<close>
  and \<open>256^3\<close> go through the arithmetic and get a blue channel of 256, which is no colour
  channel at all.
\<close>

theorem indexToColor_above_range_not_white:
  "indexToColor (256^3 - 1) = RGB 0 0 256 \<and> indexToColor (256^3 - 1) \<noteq> RGB 255 255 255"
  by (simp add: indexToColor_def Let_def)

lemma indexToColor_at_guard:
  "indexToColor (256^3) = RGB 1 0 256"
  by (simp add: indexToColor_def Let_def)

end
